theory Spec2Isabelle
  imports Main "HOL-Library.AList"
begin

section \<open>Data model\<close>

text \<open>
  The module \<^verbatim>\<open>spotify_functions.py\<close> is glue around two libraries: a Spotify client
  and pandas. The tables it handles are pandas DataFrames. A cell holds a string, a number
  or nothing (NaN, None). Numbers are exact integers here: the rounding of floating-point
  cells is outside this development.
\<close>

datatype cell = Missing | IntV int | StrV string

text \<open>
  A row is a record from column names to cells, in column order, as the dictionaries
  \<^verbatim>\<open>song_info\<close> of \<^verbatim>\<open>get_playlist_tracks\<close> are. A DataFrame is the ordered
  list of its column labels together with its rows in index order. A row that has no entry
  for a column reads as missing there, which is how pandas fills a frame built from
  records. Row labels (the index) play no part in any operation used by the module and
  are left out.
\<close>

type_synonym row = "(string \<times> cell) list"

record dataframe =
  columns :: "string list"
  rows :: "row list"

definition cell_of :: "row \<Rightarrow> string \<Rightarrow> cell" where
  "cell_of r c = (case map_of r c of Some v \<Rightarrow> v | None \<Rightarrow> Missing)"

text \<open>The representation invariant of a frame: every row has exactly the frame's columns.\<close>

definition consistent :: "dataframe \<Rightarrow> bool" where
  "consistent d \<longleftrightarrow> distinct (columns d) \<and> list_all (\<lambda>r. map fst r = columns d) (rows d)"

text \<open>
  The exceptions that occur. \<^verbatim>\<open>FileNotFoundError\<close>, \<^verbatim>\<open>NotADirectoryError\<close> and
  \<^verbatim>\<open>IsADirectoryError\<close> are different subclasses of \<^verbatim>\<open>OSError\<close>; \<open>OSError\<close>
  here stands for an \<^verbatim>\<open>OSError\<close> that is none of them, \<open>OtherError\<close> for any
  other exception. All of them are instances of \<^verbatim>\<open>Exception\<close>.
\<close>

datatype exn =
    KeyError string
  | TypeError
  | ValueError
  | FileNotFoundError string
  | NotADirectoryError string
  | IsADirectoryError string
  | OSError string
  | OtherError string

text \<open>
  What the module prints, one constructor for each \<^verbatim>\<open>print\<close> statement, carrying the
  values interpolated into the text.
\<close>

datatype msg =
    Original_shape "nat \<times> nat"
  | Shape_after_dropping_NAs "nat \<times> nat"
  | Dropped_the_index_column
  | Found_duplicate_tracks nat
  | Final_shape_after_cleaning "nat \<times> nat"
  | Created_is_hit_column int
  | Distribution_of_hits
  | Value_counts "cell list"
  | Dataset_loaded string nat
  | File_was_not_found string
  | Found_playlist string string
  | Could_not_find_playlists string
  | Successfully_connected
  | Error_connecting_to_Spotify exn
  | Collected_data_for nat

section \<open>Objects, output and exceptions\<close>

text \<open>
  DataFrames are objects: a variable holds a reference, and \<^verbatim>\<open>df['is_hit'] = ...\<close>
  changes the object every holder of the reference sees. The heap is the list of the
  frames allocated so far, a reference is a position in it. A Python computation takes
  the heap and the text printed so far and either returns a value or raises.
\<close>

type_synonym ref = nat
type_synonym heap = "dataframe list"
type_synonym state = "heap \<times> msg list"
type_synonym 'a py = "state \<Rightarrow> (exn + 'a) \<times> state"

definition py_return :: "'a \<Rightarrow> 'a py" where
  "py_return a = (\<lambda>s. (Inr a, s))"

definition py_raise :: "exn \<Rightarrow> 'a py" where
  "py_raise e = (\<lambda>s. (Inl e, s))"

definition py_bind :: "'a py \<Rightarrow> ('a \<Rightarrow> 'b py) \<Rightarrow> 'b py" where
  "py_bind m f = (\<lambda>s. case m s of (Inl e, s') \<Rightarrow> (Inl e, s') | (Inr a, s') \<Rightarrow> f a s')"

definition py_lift :: "exn + 'a \<Rightarrow> 'a py" where
  "py_lift x = (case x of Inl e \<Rightarrow> py_raise e | Inr a \<Rightarrow> py_return a)"

definition py_print :: "msg \<Rightarrow> unit py" where
  "py_print m = (\<lambda>(h, out). (Inr (), (h, out @ [m])))"

definition new_frame :: "dataframe \<Rightarrow> ref py" where
  "new_frame d = (\<lambda>(h, out). (Inr (length h), (h @ [d], out)))"

definition read_frame :: "ref \<Rightarrow> dataframe py" where
  "read_frame r = (\<lambda>(h, out). (Inr (h ! r), (h, out)))"

definition write_frame :: "ref \<Rightarrow> dataframe \<Rightarrow> unit py" where
  "write_frame r d = (\<lambda>(h, out). (Inr (), (h[r := d], out)))"

text \<open>\<^verbatim>\<open>try: m except E: handler\<close>, where \<open>catches\<close> says which exceptions \<^verbatim>\<open>E\<close> matches.\<close>

definition py_try :: "'a py \<Rightarrow> (exn \<Rightarrow> bool) \<Rightarrow> (exn \<Rightarrow> 'a py) \<Rightarrow> 'a py" where
  "py_try m catches handler =
     (\<lambda>s. case m s of
        (Inl e, s') \<Rightarrow> if catches e then handler e s' else (Inl e, s')
      | (Inr a, s') \<Rightarrow> (Inr a, s'))"

section \<open>The pandas operations the module calls\<close>

definition shape :: "dataframe \<Rightarrow> nat \<times> nat" where
  "shape d = (length (rows d), length (columns d))"

text \<open>\<^verbatim>\<open>df.empty\<close>: an axis of length 0.\<close>

definition empty_frame :: "dataframe \<Rightarrow> bool" where
  "empty_frame d \<longleftrightarrow> rows d = [] \<or> columns d = []"

definition complete_row :: "string list \<Rightarrow> row \<Rightarrow> bool" where
  "complete_row cs r \<longleftrightarrow> list_all (\<lambda>c. cell_of r c \<noteq> Missing) cs"

text \<open>\<^verbatim>\<open>df.dropna()\<close>: a new frame with the rows that have no missing cell.\<close>

definition dropna :: "dataframe \<Rightarrow> dataframe" where
  "dropna d = d\<lparr>rows := filter (complete_row (columns d)) (rows d)\<rparr>"

text \<open>\<^verbatim>\<open>df.drop(columns=[c])\<close>: a new frame without column \<open>c\<close>; KeyError when there is none.\<close>

definition drop_columns :: "string \<Rightarrow> dataframe \<Rightarrow> exn + dataframe" where
  "drop_columns c d =
     (if c \<notin> set (columns d) then Inl (KeyError c)
      else Inr \<lparr>columns = filter (\<lambda>c'. c' \<noteq> c) (columns d),
                rows = map (AList.delete c) (rows d)\<rparr>)"

text \<open>
  The marks of \<^verbatim>\<open>duplicated(keep='first')\<close>: a value is marked when it was seen at an
  earlier position.
\<close>

fun mark_duplicates :: "'a list \<Rightarrow> 'a list \<Rightarrow> bool list" where
  "mark_duplicates seen [] = []"
| "mark_duplicates seen (k # ks) = (k \<in> set seen) # mark_duplicates (k # seen) ks"

text \<open>
  \<^verbatim>\<open>df.duplicated(subset=[c])\<close>. pandas answers an empty frame with an empty Series
  before it looks at \<open>subset\<close>; otherwise a label of \<open>subset\<close> that is no column raises
  KeyError.
\<close>

definition duplicated :: "string \<Rightarrow> dataframe \<Rightarrow> exn + bool list" where
  "duplicated c d =
     (if empty_frame d then Inr []
      else if c \<notin> set (columns d) then Inl (KeyError c)
      else Inr (mark_duplicates [] (map (\<lambda>r. cell_of r c) (rows d))))"

text \<open>
  \<^verbatim>\<open>df.drop_duplicates(subset=[c], keep='first')\<close>: a copy of an empty frame, otherwise
  the rows that \<open>duplicated\<close> does not mark.
\<close>

definition drop_duplicates :: "string \<Rightarrow> dataframe \<Rightarrow> exn + dataframe" where
  "drop_duplicates c d =
     (if empty_frame d then Inr d
      else case duplicated c d of
        Inl e \<Rightarrow> Inl e
      | Inr marks \<Rightarrow> Inr (d\<lparr>rows := map fst (filter (\<lambda>(r, dup). \<not> dup) (zip (rows d) marks))\<rparr>))"

text \<open>\<^verbatim>\<open>series.sum()\<close> of a boolean Series: the number of True entries.\<close>

definition sum_series :: "bool list \<Rightarrow> nat" where
  "sum_series marks = length (filter (\<lambda>b. b) marks)"

text \<open>\<^verbatim>\<open>df[c]\<close>: the column as a Series; KeyError when there is none.\<close>

definition getitem :: "string \<Rightarrow> dataframe \<Rightarrow> exn + cell list" where
  "getitem c d =
     (if c \<notin> set (columns d) then Inl (KeyError c)
      else Inr (map (\<lambda>r. cell_of r c) (rows d)))"

text \<open>
  \<^verbatim>\<open>series > k\<close> for an integer \<open>k\<close>: a missing cell compares False, a string cell
  raises TypeError.
\<close>

fun cell_gt :: "cell \<Rightarrow> int \<Rightarrow> exn + bool" where
  "cell_gt (IntV p) k = Inr (p > k)"
| "cell_gt Missing k = Inr False"
| "cell_gt (StrV s) k = Inl TypeError"

fun series_gt :: "cell list \<Rightarrow> int \<Rightarrow> exn + bool list" where
  "series_gt [] k = Inr []"
| "series_gt (c # cs) k =
     (case cell_gt c k of
        Inl e \<Rightarrow> Inl e
      | Inr b \<Rightarrow> (case series_gt cs k of Inl e \<Rightarrow> Inl e | Inr bs \<Rightarrow> Inr (b # bs)))"

text \<open>\<^verbatim>\<open>series.astype(int)\<close> of a boolean Series.\<close>

definition astype_int :: "bool list \<Rightarrow> cell list" where
  "astype_int bs = map (\<lambda>b. IntV (if b then 1 else 0)) bs"

text \<open>
  \<^verbatim>\<open>df[c] = series\<close>: the column is replaced where it stands, or added as the last one;
  ValueError when the lengths differ.
\<close>

definition setitem :: "string \<Rightarrow> cell list \<Rightarrow> dataframe \<Rightarrow> exn + dataframe" where
  "setitem c vs d =
     (if length vs \<noteq> length (rows d) then Inl ValueError
      else Inr \<lparr>columns = (if c \<in> set (columns d) then columns d else columns d @ [c]),
                rows = map (\<lambda>(r, v). AList.update c v r) (zip (rows d) vs)\<rparr>)"

section \<open>The module's functions\<close>

subsection \<open>Catalog fetch: \<^verbatim>\<open>connect_to_spotify\<close>, \<^verbatim>\<open>search_playlist\<close>, \<^verbatim>\<open>get_playlist_tracks\<close>\<close>

text \<open>
  The constructor of the client, \<^verbatim>\<open>spotipy.Spotify(auth_manager=SpotifyClientCredentials(...))\<close>,
  is a parameter: for the two credentials it raises or answers with a client.
  \<^verbatim>\<open>except Exception\<close> matches every exception.
\<close>

type_synonym 'sp spotify_constructor = "string \<Rightarrow> string \<Rightarrow> exn + 'sp"

definition connect_to_spotify :: "'sp spotify_constructor \<Rightarrow> string \<Rightarrow> string \<Rightarrow> 'sp option py" where
  "connect_to_spotify spotify client_id client_secret =
     py_try
       (py_bind (py_lift (spotify client_id client_secret)) (\<lambda>sp.
        py_bind (py_print Successfully_connected) (\<lambda>_.
        py_return (Some sp))))
       (\<lambda>e. True)
       (\<lambda>e. py_bind (py_print (Error_connecting_to_Spotify e)) (\<lambda>_. py_return None))"

text \<open>
  A playlist summary of the search response; an item of the response may be null.
  The client's \<^verbatim>\<open>sp.search\<close> is a parameter: for a query and a limit it raises or
  answers with \<^verbatim>\<open>results['playlists']['items']\<close> (\<open>None\<close> for a falsy response).
\<close>

datatype playlist = Playlist (playlist_id: string) (playlist_name: string)

type_synonym search_client = "string \<Rightarrow> nat \<Rightarrow> exn + playlist option list option"

text \<open>The \<^verbatim>\<open>for\<close> loop: \<open>Some\<close> is its early \<^verbatim>\<open>return\<close>, \<open>None\<close> its normal end.\<close>

fun for_playlist :: "playlist option list \<Rightarrow> (string \<times> string) option py" where
  "for_playlist [] = py_return None"
| "for_playlist (playlist # items) =
     (case playlist of
        Some p \<Rightarrow>
          py_bind (py_print (Found_playlist (playlist_name p) (playlist_id p)))
            (\<lambda>_. py_return (Some (playlist_id p, playlist_name p)))
      | None \<Rightarrow> for_playlist items)"

definition search_playlist ::
  "search_client \<Rightarrow> string \<Rightarrow> nat option \<Rightarrow> (string option \<times> string option) py" where
  "search_playlist sp query limit =
     py_bind (py_lift (sp query (case limit of None \<Rightarrow> 5 | Some l \<Rightarrow> l))) (\<lambda>results.
     py_bind (case results of
                None \<Rightarrow> py_return None
              | Some items \<Rightarrow> if items \<noteq> [] then for_playlist items else py_return None)
       (\<lambda>found.
     case found of
       Some (i, n) \<Rightarrow> py_return (Some i, Some n)
     | None \<Rightarrow>
         py_bind (py_print (Could_not_find_playlists query))
           (\<lambda>_. py_return (None, None))))"

text \<open>
  A track of a playlist response, and the record \<^verbatim>\<open>song_info\<close> made from it. The
  client's \<^verbatim>\<open>sp.playlist_tracks\<close> is a parameter: for a playlist id it raises or
  answers with the \<^verbatim>\<open>track\<close> fields of \<^verbatim>\<open>results['items']\<close>, each of which may
  be null. \<^verbatim>\<open>create_dataframe\<close> only hands these records to pandas and is left out.
\<close>

datatype artist = Artist (artist_name: string)

datatype track =
  Track (track_name: string) (track_id: string) (track_popularity: int) (track_artists: "artist list")

datatype song_info =
  Song_info (song_name: string) (song_id: string) (song_popularity: int) (song_artists: "string list")

type_synonym tracks_client = "string \<Rightarrow> exn + track option list"

text \<open>The \<^verbatim>\<open>for\<close> loop, with the list \<^verbatim>\<open>song_data\<close> it appends to.\<close>

fun for_item :: "track option list \<Rightarrow> song_info list \<Rightarrow> song_info list" where
  "for_item [] song_data = song_data"
| "for_item (track # items) song_data =
     (case track of
        Some t \<Rightarrow>
          for_item items
            (song_data @ [Song_info (track_name t) (track_id t) (track_popularity t)
                            (map artist_name (track_artists t))])
      | None \<Rightarrow> for_item items song_data)"

definition get_playlist_tracks :: "tracks_client \<Rightarrow> string \<Rightarrow> song_info list py" where
  "get_playlist_tracks sp pl_id =
     py_bind (py_lift (sp pl_id)) (\<lambda>items.
     let song_data = for_item items [] in
     py_bind (py_print (Collected_data_for (length song_data))) (\<lambda>_.
     py_return song_data))"

subsection \<open>Dataset cleaning: \<^verbatim>\<open>load_spotify_dataset\<close>, \<^verbatim>\<open>clean_data\<close>, \<^verbatim>\<open>define_hit_songs\<close>\<close>

text \<open>
  What the file system answers for a path: an existing regular file with its text, or one
  of the ways in which a path does not resolve to a file. Nothing exists at the path
  (\<^verbatim>\<open>ENOENT\<close>); the path runs through something that is not a directory, as
  \<^verbatim>\<open>plain.csv/x\<close> does when \<^verbatim>\<open>plain.csv\<close> is a regular file (\<^verbatim>\<open>ENOTDIR\<close>); the
  path is a directory; a name in it is too long; it holds a null character.
\<close>

datatype path_status =
    File string
  | No_such_file
  | Not_a_directory
  | Is_a_directory
  | Name_too_long
  | Embedded_null

type_synonym filesystem = "string \<Rightarrow> path_status"
type_synonym csv_parser = "string \<Rightarrow> exn + dataframe"

text \<open>\<^verbatim>\<open>open(file_path)\<close>: the text of the file, or the exception for the path.\<close>

definition open_file :: "filesystem \<Rightarrow> string \<Rightarrow> exn + string" where
  "open_file fs file_path =
     (case fs file_path of
        File text \<Rightarrow> Inr text
      | No_such_file \<Rightarrow> Inl (FileNotFoundError file_path)
      | Not_a_directory \<Rightarrow> Inl (NotADirectoryError file_path)
      | Is_a_directory \<Rightarrow> Inl (IsADirectoryError file_path)
      | Name_too_long \<Rightarrow> Inl (OSError file_path)
      | Embedded_null \<Rightarrow> Inl ValueError)"

text \<open>
  \<^verbatim>\<open>pd.read_csv\<close> opens the path and parses the text; the parser is a parameter.
\<close>

definition read_csv :: "csv_parser \<Rightarrow> filesystem \<Rightarrow> string \<Rightarrow> exn + dataframe" where
  "read_csv parse fs file_path =
     (case open_file fs file_path of Inl e \<Rightarrow> Inl e | Inr text \<Rightarrow> parse text)"

fun is_FileNotFoundError :: "exn \<Rightarrow> bool" where
  "is_FileNotFoundError (FileNotFoundError p) = True"
| "is_FileNotFoundError e = False"

definition load_spotify_dataset :: "csv_parser \<Rightarrow> filesystem \<Rightarrow> string \<Rightarrow> ref option py" where
  "load_spotify_dataset parse fs file_path =
     py_try
       (py_bind (py_lift (read_csv parse fs file_path)) (\<lambda>d.
        py_bind (new_frame d) (\<lambda>df.
        py_bind (py_print (Dataset_loaded file_path (fst (shape d)))) (\<lambda>_.
        py_return (Some df)))))
       is_FileNotFoundError
       (\<lambda>e. py_bind (py_print (File_was_not_found file_path)) (\<lambda>_. py_return None))"

definition clean_data :: "ref \<Rightarrow> ref py" where
  "clean_data df =
     py_bind (read_frame df) (\<lambda>d.
     py_bind (py_print (Original_shape (shape d))) (\<lambda>_.
     py_bind (new_frame (dropna d)) (\<lambda>df_cleaned.
     py_bind (read_frame df_cleaned) (\<lambda>d1.
     py_bind (py_print (Shape_after_dropping_NAs (shape d1))) (\<lambda>_.
     py_bind (if ''index'' \<in> set (columns d1) then
                py_bind (py_lift (drop_columns ''index'' d1)) (\<lambda>d2.
                py_bind (new_frame d2) (\<lambda>df_cleaned.
                py_bind (py_print Dropped_the_index_column) (\<lambda>_.
                py_return df_cleaned)))
              else py_return df_cleaned) (\<lambda>df_cleaned.
     py_bind (read_frame df_cleaned) (\<lambda>d2.
     py_bind (py_lift (duplicated ''track_id'' d2)) (\<lambda>marks.
     let num_duplicates = sum_series marks in
     py_bind (if num_duplicates > 0 then
                py_bind (py_print (Found_duplicate_tracks num_duplicates)) (\<lambda>_.
                py_bind (py_lift (drop_duplicates ''track_id'' d2)) (\<lambda>d3.
                new_frame d3))
              else py_return df_cleaned) (\<lambda>df_cleaned.
     py_bind (read_frame df_cleaned) (\<lambda>d3.
     py_bind (py_print (Final_shape_after_cleaning (shape d3))) (\<lambda>_.
     py_return df_cleaned)))))))))))"

definition define_hit_songs :: "ref \<Rightarrow> int option \<Rightarrow> ref py" where
  "define_hit_songs df threshold_arg =
     (let threshold = (case threshold_arg of None \<Rightarrow> 87 | Some k \<Rightarrow> k) in
      py_bind (read_frame df) (\<lambda>d.
      py_bind (py_lift (getitem ''popularity'' d)) (\<lambda>popularity.
      py_bind (py_lift (series_gt popularity threshold)) (\<lambda>hits.
      py_bind (py_lift (setitem ''is_hit'' (astype_int hits) d)) (\<lambda>d'.
      py_bind (write_frame df d') (\<lambda>_.
      py_bind (py_print (Created_is_hit_column threshold)) (\<lambda>_.
      py_bind (py_print Distribution_of_hits) (\<lambda>_.
      py_bind (read_frame df) (\<lambda>d''.
      py_bind (py_lift (getitem ''is_hit'' d'')) (\<lambda>is_hit.
      py_bind (py_print (Value_counts is_hit)) (\<lambda>_.
      py_return df)))))))))))"

section \<open>The cleaning passes as the specification words them\<close>

text \<open>
  The specification describes \<^verbatim>\<open>clean_data\<close> as three passes. They are written here
  from its words, to be compared with the function above. Completeness pass: remove every
  row containing at least one missing value in any column.
\<close>

definition completeness_pass :: "dataframe \<Rightarrow> dataframe" where
  "completeness_pass d =
     d\<lparr>rows := filter (\<lambda>r. \<not> list_ex (\<lambda>c. cell_of r c = Missing) (columns d)) (rows d)\<rparr>"

text \<open>Schema-hygiene pass: if a column literally named \<^verbatim>\<open>index\<close> is present, remove it.\<close>

definition schema_hygiene_pass :: "dataframe \<Rightarrow> dataframe" where
  "schema_hygiene_pass d =
     (if ''index'' \<in> set (columns d)
      then \<lparr>columns = removeAll ''index'' (columns d),
            rows = map (filter (\<lambda>kv. fst kv \<noteq> ''index'')) (rows d)\<rparr>
      else d)"

text \<open>
  Deduplication pass: rows are duplicates when they share the value of the identity
  column; keep exactly the first occurrence, in current row order, and discard the rest.
\<close>

fun keep_first :: "('a \<Rightarrow> 'k) \<Rightarrow> 'a list \<Rightarrow> 'a list" where
  "keep_first key [] = []"
| "keep_first key (x # xs) = x # keep_first key (filter (\<lambda>y. key y \<noteq> key x) xs)"

definition deduplication_pass :: "dataframe \<Rightarrow> dataframe" where
  "deduplication_pass d = d\<lparr>rows := keep_first (\<lambda>r. cell_of r ''track_id'') (rows d)\<rparr>"

definition CleanTable_spec :: "dataframe \<Rightarrow> dataframe" where
  "CleanTable_spec d = deduplication_pass (schema_hygiene_pass (completeness_pass d))"

text \<open>The number of rows the deduplication pass discards from a table.\<close>

definition discarded_duplicates :: "dataframe \<Rightarrow> nat" where
  "discarded_duplicates d = length (rows d) - length (rows (deduplication_pass d))"

section \<open>Running a computation\<close>

lemma bind_return: "py_bind (py_return a) f s = f a s"
  by (simp add: py_bind_def py_return_def)

lemma bind_raise: "py_bind (py_raise e) f s = (Inl e, s)"
  by (simp add: py_bind_def py_raise_def)

lemma run_return: "py_return a s = (Inr a, s)"
  by (simp add: py_return_def)

lemma run_raise: "py_raise e s = (Inl e, s)"
  by (simp add: py_raise_def)

lemma bind_lift_Inr: "py_bind (py_lift (Inr a)) f s = f a s"
  by (simp add: py_lift_def bind_return)

lemma bind_lift_Inl: "py_bind (py_lift (Inl e)) f s = (Inl e, s)"
  by (simp add: py_lift_def bind_raise)

lemma bind_print: "py_bind (py_print m) f (h, out) = f () (h, out @ [m])"
  by (simp add: py_bind_def py_print_def)

lemma bind_new_frame: "py_bind (new_frame d) f (h, out) = f (length h) (h @ [d], out)"
  by (simp add: py_bind_def new_frame_def)

lemma bind_read_frame: "py_bind (read_frame r) f (h, out) = f (h ! r) (h, out)"
  by (simp add: py_bind_def read_frame_def)

lemma bind_write_frame: "py_bind (write_frame r d) f (h, out) = f () (h[r := d], out)"
  by (simp add: py_bind_def write_frame_def)

lemma bind_assoc: "py_bind (py_bind m f) g = py_bind m (\<lambda>a. py_bind (f a) g)"
  by (auto simp: py_bind_def fun_eq_iff split: prod.splits sum.splits)

lemmas run_simps = bind_return bind_raise bind_lift_Inr bind_lift_Inl bind_print
  bind_new_frame bind_read_frame bind_write_frame bind_assoc run_return run_raise

section \<open>The pandas operations keep frames consistent\<close>

lemma consistent_dropna: "consistent d \<Longrightarrow> consistent (dropna d)"
  by (auto simp: consistent_def dropna_def list_all_iff)

lemma consistent_drop_columns:
  assumes "consistent d" and "drop_columns c d = Inr d'"
  shows "consistent d'"
proof -
  have "filter (\<lambda>c'. c' \<noteq> c) (columns d) = removeAll c (columns d)"
    by (auto simp: removeAll_filter_not_eq intro: filter_cong)
  with assms show ?thesis
    by (auto simp: consistent_def drop_columns_def list_all_iff delete_keys distinct_removeAll
        split: if_splits)
qed

lemma consistent_drop_duplicates:
  assumes "consistent d" and "drop_duplicates c d = Inr d'"
  shows "consistent d'"
  using assms
  by (auto simp: consistent_def drop_duplicates_def list_all_iff split: if_splits sum.splits
      dest!: set_zip_leftD)

lemma consistent_setitem:
  assumes "consistent d" and "setitem c vs d = Inr d'"
  shows "consistent d'"
  using assms
  by (auto simp: consistent_def setitem_def list_all_iff update_keys split: if_splits
      dest!: set_zip_leftD)

section \<open>Searching a playlist\<close>

text \<open>The loop stops at the first item that is not null.\<close>

lemma for_playlist_eq:
  "for_playlist items (h, out) =
     (case List.map_filter (\<lambda>p. p) items of
        [] \<Rightarrow> (Inr None, (h, out))
      | p # _ \<Rightarrow> (Inr (Some (playlist_id p, playlist_name p)),
                  (h, out @ [Found_playlist (playlist_name p) (playlist_id p)])))"
proof (induction items)
  case Nil
  show ?case by (simp add: List.map_filter_simps run_return)
next
  case (Cons a items)
  show ?case
  proof (cases a)
    case None
    with Cons show ?thesis by (simp add: List.map_filter_simps)
  next
    case (Some p)
    then show ?thesis by (simp add: List.map_filter_simps run_simps)
  qed
qed

lemma search_playlist_eq:
  "search_playlist sp query limit (h, out) =
     (case sp query (case limit of None \<Rightarrow> 5 | Some l \<Rightarrow> l) of
        Inl e \<Rightarrow> (Inl e, (h, out))
      | Inr results \<Rightarrow>
          (case List.map_filter (\<lambda>p. p) (case results of None \<Rightarrow> [] | Some items \<Rightarrow> items) of
             [] \<Rightarrow> (Inr (None, None), (h, out @ [Could_not_find_playlists query]))
           | p # _ \<Rightarrow> (Inr (Some (playlist_id p), Some (playlist_name p)),
                       (h, out @ [Found_playlist (playlist_name p) (playlist_id p)]))))"
proof (cases "sp query (case limit of None \<Rightarrow> 5 | Some l \<Rightarrow> l)")
  case (Inl e)
  then show ?thesis
    by (simp add: search_playlist_def run_simps)
next
  case (Inr results)
  have loop: "py_bind (for_playlist items) f (h, out) =
      (case List.map_filter (\<lambda>p. p) items of
         [] \<Rightarrow> f None (h, out)
       | p # _ \<Rightarrow> f (Some (playlist_id p, playlist_name p))
                    (h, out @ [Found_playlist (playlist_name p) (playlist_id p)]))"
    for items and f :: "(string \<times> string) option \<Rightarrow> (string option \<times> string option) py"
    by (simp add: py_bind_def for_playlist_eq split: list.splits)
  show ?thesis
  proof (cases results)
    case None
    with Inr show ?thesis
      by (simp add: search_playlist_def run_simps List.map_filter_simps)
  next
    case (Some items)
    show ?thesis
    proof (cases "items = []")
      case True
      with Some Inr show ?thesis
        by (simp add: search_playlist_def run_simps List.map_filter_simps)
    next
      case False
      with Some Inr show ?thesis
        by (simp add: search_playlist_def run_simps loop split: list.splits)
    qed
  qed
qed

text \<open>
  C9. When the client answers, \<^verbatim>\<open>search_playlist\<close> skips the null items and returns the
  id and the name of the first playlist that is not null, in the order of the response;
  when the response is empty or holds no such item it returns \<^verbatim>\<open>(None, None)\<close> and
  prints that nothing was found. For the items \<^verbatim>\<open>[null, {id: "x", name: "Y"}]\<close> the
  result is \<^verbatim>\<open>("x", "Y")\<close>.
\<close>

theorem search_playlist_first_valid:
  assumes "sp query (case limit of None \<Rightarrow> 5 | Some l \<Rightarrow> l) = Inr results"
  shows "search_playlist sp query limit (h, out) =
     (case List.map_filter (\<lambda>p. p) (case results of None \<Rightarrow> [] | Some items \<Rightarrow> items) of
        [] \<Rightarrow> (Inr (None, None), (h, out @ [Could_not_find_playlists query]))
      | p # _ \<Rightarrow> (Inr (Some (playlist_id p), Some (playlist_name p)),
                  (h, out @ [Found_playlist (playlist_name p) (playlist_id p)])))
    \<and> (results = Some [None, Some (Playlist ''x'' ''Y'')] \<longrightarrow>
         fst (search_playlist sp query limit (h, out)) = Inr (Some ''x'', Some ''Y''))"
  using assms by (simp add: search_playlist_eq List.map_filter_simps)

theorem search_playlist_first_valid_witness:
  "search_playlist (\<lambda>q l. Inr (Some [None, Some (Playlist ''x'' ''Y'')])) ''top hits'' None ([], []) =
     (Inr (Some ''x'', Some ''Y''), ([], [Found_playlist ''Y'' ''x'']))"
  using search_playlist_first_valid
    [of "\<lambda>q l. Inr (Some [None, Some (Playlist ''x'' ''Y'')])" "''top hits''" None
        "Some [None, Some (Playlist ''x'' ''Y'')]" "[]" "[]"]
  by (simp add: List.map_filter_simps)

section \<open>Loading the dataset\<close>

lemma load_spotify_dataset_eq:
  "load_spotify_dataset parse fs file_path (h, out) =
     (case open_file fs file_path of
        Inl e \<Rightarrow> if is_FileNotFoundError e
                 then (Inr None, (h, out @ [File_was_not_found file_path]))
                 else (Inl e, (h, out))
      | Inr text \<Rightarrow>
          (case parse text of
             Inr d \<Rightarrow> (Inr (Some (length h)),
                       (h @ [d], out @ [Dataset_loaded file_path (length (rows d))]))
           | Inl e \<Rightarrow> if is_FileNotFoundError e
                      then (Inr None, (h, out @ [File_was_not_found file_path]))
                      else (Inl e, (h, out))))"
  by (simp add: load_spotify_dataset_def py_try_def read_csv_def run_simps shape_def
      split: sum.splits)

lemma open_file_unresolved:
  assumes "\<forall>text. fs file_path \<noteq> File text"
  shows "\<exists>e. open_file fs file_path = Inl e \<and>
           (is_FileNotFoundError e \<longleftrightarrow> fs file_path = No_such_file)"
  using assms by (cases "fs file_path") (simp_all add: open_file_def)

text \<open>
  C4, as amended. For a path that does not resolve to an existing file,
  \<^verbatim>\<open>load_spotify_dataset\<close> returns \<^verbatim>\<open>None\<close>, prints that the file was not found and
  raises nothing when nothing exists at the path (\<^verbatim>\<open>FileNotFoundError\<close>), with the heap
  as it was. When the path fails to resolve in any other way, the exception of
  \<^verbatim>\<open>open\<close>, which is not a \<^verbatim>\<open>FileNotFoundError\<close>, reaches the caller and nothing is
  printed.
\<close>

theorem load_spotify_dataset_unresolved_path:
  assumes "\<forall>text. fs file_path \<noteq> File text"
  shows "(fs file_path = No_such_file \<longrightarrow>
            load_spotify_dataset parse fs file_path (h, out) =
              (Inr None, (h, out @ [File_was_not_found file_path]))) \<and>
         (fs file_path \<noteq> No_such_file \<longrightarrow>
            (\<exists>e. open_file fs file_path = Inl e \<and> \<not> is_FileNotFoundError e \<and>
                 load_spotify_dataset parse fs file_path (h, out) = (Inl e, (h, out))))"
proof -
  from open_file_unresolved [of fs file_path] assms obtain e where
    e: "open_file fs file_path = Inl e" "is_FileNotFoundError e \<longleftrightarrow> fs file_path = No_such_file"
    by blast
  then show ?thesis
    by (simp add: load_spotify_dataset_eq)
qed

theorem load_spotify_dataset_unresolved_path_witness:
  "load_spotify_dataset (\<lambda>t. Inl (OtherError ''unused''))
     (\<lambda>p. if p = ''plain.csv'' then File ''a,b'' else
          if p = ''plain.csv/x'' then Not_a_directory else No_such_file)
     ''missing.csv'' ([], []) =
     (Inr None, ([], [File_was_not_found ''missing.csv'']))"
  using load_spotify_dataset_unresolved_path
    [of "\<lambda>p. if p = ''plain.csv'' then File ''a,b'' else
          if p = ''plain.csv/x'' then Not_a_directory else No_such_file"
        "''missing.csv''" "\<lambda>t. Inl (OtherError ''unused'')" "[]" "[]"]
  by simp

text \<open>
  C4 as stated fails: \<^verbatim>\<open>plain.csv\<close> is a regular file, so \<^verbatim>\<open>plain.csv/x\<close> does not
  resolve to a file, and \<^verbatim>\<open>load_spotify_dataset\<close> raises \<^verbatim>\<open>NotADirectoryError\<close>
  instead of returning \<^verbatim>\<open>None\<close>.
\<close>

theorem load_spotify_dataset_not_a_directory_counterexample:
  "(\<lambda>p. if p = ''plain.csv'' then File ''a,b'' else
          if p = ''plain.csv/x'' then Not_a_directory else No_such_file) ''plain.csv/x''
     = Not_a_directory \<and>
   load_spotify_dataset (\<lambda>t. Inl (OtherError ''unused''))
     (\<lambda>p. if p = ''plain.csv'' then File ''a,b'' else
          if p = ''plain.csv/x'' then Not_a_directory else No_such_file)
     ''plain.csv/x'' ([], []) =
     (Inl (NotADirectoryError ''plain.csv/x''), ([], []))"
  by (simp add: load_spotify_dataset_eq open_file_def)

section \<open>Labelling hits\<close>

lemma series_gt_eq:
  "series_gt cs k =
     (if \<exists>s. StrV s \<in> set cs then Inl TypeError
      else Inr (map (\<lambda>c. \<exists>p. c = IntV p \<and> k < p) cs))"
proof (induction cs)
  case Nil
  show ?case by simp
next
  case (Cons c cs)
  show ?case
  proof (cases c)
    case Missing
    with Cons show ?thesis by auto
  next
    case (IntV p)
    with Cons show ?thesis by auto
  next
    case (StrV s)
    then show ?thesis by auto
  qed
qed

lemma map_zip_same: "map (\<lambda>(x, y). g x y) (zip xs (map f xs)) = map (\<lambda>x. g x (f x)) xs"
  by (induction xs) simp_all

lemma cell_of_update: "cell_of (AList.update c v r) c' = (if c' = c then v else cell_of r c')"
  by (simp add: cell_of_def update_conv')

lemma define_hit_songs_eq:
  assumes "df < length h"
  shows "define_hit_songs df thr (h, out) =
    (let k = (case thr of None \<Rightarrow> 87 | Some k \<Rightarrow> k); d = h ! df;
         label = (\<lambda>r. IntV (if \<exists>p. cell_of r ''popularity'' = IntV p \<and> k < p then 1 else 0))
     in if ''popularity'' \<notin> set (columns d) then (Inl (KeyError ''popularity''), (h, out))
        else if \<exists>r\<in>set (rows d). \<exists>s. cell_of r ''popularity'' = StrV s
          then (Inl TypeError, (h, out))
        else (Inr df,
              (h[df := \<lparr>columns = (if ''is_hit'' \<in> set (columns d) then columns d
                                    else columns d @ [''is_hit'']),
                         rows = map (\<lambda>r. AList.update ''is_hit'' (label r) r) (rows d)\<rparr>],
               out @ [Created_is_hit_column k, Distribution_of_hits,
                      Value_counts (map label (rows d))])))"
proof -
  define k where "k = (case thr of None \<Rightarrow> (87::int) | Some k \<Rightarrow> k)"
  define d where "d = h ! df"
  show ?thesis
  proof (cases "''popularity'' \<in> set (columns d)")
    case False
    then show ?thesis
      by (simp add: define_hit_songs_def Let_def run_simps getitem_def d_def)
  next
    case pop: True
    show ?thesis
    proof (cases "\<exists>r\<in>set (rows d). \<exists>s. cell_of r ''popularity'' = StrV s")
      case True
      then have "\<exists>s. StrV s \<in> set (map (\<lambda>r. cell_of r ''popularity'') (rows d))"
        by (auto simp: image_iff) metis
      with pop True show ?thesis
        by (simp add: define_hit_songs_def Let_def run_simps getitem_def d_def series_gt_eq
            del: set_map)
    next
      case False
      then have "\<not> (\<exists>s. StrV s \<in> set (map (\<lambda>r. cell_of r ''popularity'') (rows d)))"
        by (auto simp: image_iff) (metis)
      with pop False assms show ?thesis
        by (simp add: define_hit_songs_def Let_def run_simps getitem_def d_def series_gt_eq
            setitem_def astype_int_def map_zip_same cell_of_update comp_def
            del: set_map)
    qed
  qed
qed


lemma define_hit_songs_returned:
  assumes "df < length h" and "define_hit_songs df thr (h, out) = (Inr r, (h', out'))"
  shows "r = df"
    and "''popularity'' \<in> set (columns (h ! df))"
    and "\<forall>row\<in>set (rows (h ! df)). \<forall>s. cell_of row ''popularity'' \<noteq> StrV s"
    and "h' = h[df := \<lparr>columns = (if ''is_hit'' \<in> set (columns (h ! df)) then columns (h ! df)
                                    else columns (h ! df) @ [''is_hit'']),
                       rows = map (\<lambda>row. AList.update ''is_hit''
                                (IntV (if \<exists>p. cell_of row ''popularity'' = IntV p \<and>
                                            (case thr of None \<Rightarrow> 87 | Some k \<Rightarrow> k) < p
                                       then 1 else 0)) row) (rows (h ! df))\<rparr>]"
  using define_hit_songs_eq [OF assms(1), of thr out] assms(2)
  by (auto simp: Let_def split: if_splits)

text \<open>
  C1. \<^verbatim>\<open>define_hit_songs\<close> leaves the table it was given with the same number of rows
  and an \<^verbatim>\<open>is_hit\<close> column, and for every position the row there keeps its popularity
  and has \<^verbatim>\<open>is_hit\<close> equal to 1 when that popularity is a number strictly greater than
  the threshold and to 0 otherwise (so a row whose popularity equals the threshold gets
  0); the threshold is 87 when none is given. The function returns whenever the table has
  a \<^verbatim>\<open>popularity\<close> column that holds no string.
\<close>

theorem define_hit_songs_strict_threshold:
  assumes "df < length h"
  shows "(\<forall>r h' out'. define_hit_songs df thr (h, out) = (Inr r, (h', out')) \<longrightarrow>
            r = df \<and> ''is_hit'' \<in> set (columns (h' ! df)) \<and>
            length (rows (h' ! df)) = length (rows (h ! df)) \<and>
            (\<forall>i<length (rows (h ! df)).
               cell_of (rows (h' ! df) ! i) ''popularity'' =
                 cell_of (rows (h ! df) ! i) ''popularity'' \<and>
               cell_of (rows (h' ! df) ! i) ''is_hit'' =
                 IntV (if \<exists>p. cell_of (rows (h ! df) ! i) ''popularity'' = IntV p \<and>
                              (case thr of None \<Rightarrow> 87 | Some k \<Rightarrow> k) < p
                       then 1 else 0)) \<and>
            (\<forall>row\<in>set (rows (h' ! df)).
               (cell_of row ''is_hit'' = IntV 1 \<longleftrightarrow>
                  (\<exists>p. cell_of row ''popularity'' = IntV p \<and>
                       (case thr of None \<Rightarrow> 87 | Some k \<Rightarrow> k) < p)) \<and>
               (cell_of row ''is_hit'' \<noteq> IntV 1 \<longrightarrow> cell_of row ''is_hit'' = IntV 0)))
       \<and> (''popularity'' \<in> set (columns (h ! df)) \<and>
          (\<forall>row\<in>set (rows (h ! df)). \<forall>s. cell_of row ''popularity'' \<noteq> StrV s) \<longrightarrow>
            (\<exists>h' out'. define_hit_songs df thr (h, out) = (Inr df, (h', out'))))"
proof -
  have labelled: "r = df \<and> ''is_hit'' \<in> set (columns (h' ! df)) \<and>
            length (rows (h' ! df)) = length (rows (h ! df)) \<and>
            (\<forall>i<length (rows (h ! df)).
               cell_of (rows (h' ! df) ! i) ''popularity'' =
                 cell_of (rows (h ! df) ! i) ''popularity'' \<and>
               cell_of (rows (h' ! df) ! i) ''is_hit'' =
                 IntV (if \<exists>p. cell_of (rows (h ! df) ! i) ''popularity'' = IntV p \<and>
                              (case thr of None \<Rightarrow> 87 | Some k \<Rightarrow> k) < p
                       then 1 else 0)) \<and>
            (\<forall>row\<in>set (rows (h' ! df)).
               (cell_of row ''is_hit'' = IntV 1 \<longleftrightarrow>
                  (\<exists>p. cell_of row ''popularity'' = IntV p \<and>
                       (case thr of None \<Rightarrow> 87 | Some k \<Rightarrow> k) < p)) \<and>
               (cell_of row ''is_hit'' \<noteq> IntV 1 \<longrightarrow> cell_of row ''is_hit'' = IntV 0))"
    if run: "define_hit_songs df thr (h, out) = (Inr r, (h', out'))" for r h' out'
  proof -
    note ret = define_hit_songs_returned [OF assms run]
    show ?thesis
      using assms by (auto simp: ret(1) ret(4) cell_of_update)
  qed
  have returns: "\<exists>h' out'. define_hit_songs df thr (h, out) = (Inr df, (h', out'))"
    if "''popularity'' \<in> set (columns (h ! df)) \<and>
          (\<forall>row\<in>set (rows (h ! df)). \<forall>s. cell_of row ''popularity'' \<noteq> StrV s)"
    using define_hit_songs_eq [OF assms, of thr out] that by (simp add: Let_def)
  from labelled returns show ?thesis
    by blast
qed

text \<open>
  C7. \<^verbatim>\<open>define_hit_songs\<close> is idempotent: applied with the same threshold to the table
  it has just labelled, it returns the same table object and leaves the heap, hence the
  table, exactly as it was. The \<^verbatim>\<open>is_hit\<close> column is overwritten, not added again.
\<close>

theorem define_hit_songs_idempotent:
  assumes "df < length h" and "define_hit_songs df thr (h, out) = (Inr r, (h', out'))"
  shows "\<exists>out''. define_hit_songs r thr (h', out') = (Inr r, (h', out''))"
proof -
  note ret = define_hit_songs_returned [OF assms]
  define k where "k = (case thr of None \<Rightarrow> (87::int) | Some k \<Rightarrow> k)"
  define label where
    "label = (\<lambda>row. IntV (if \<exists>p. cell_of row ''popularity'' = IntV p \<and> k < p then 1 else 0))"
  define d' where
    "d' = \<lparr>columns = (if ''is_hit'' \<in> set (columns (h ! df)) then columns (h ! df)
                      else columns (h ! df) @ [''is_hit'']),
           rows = map (\<lambda>row. AList.update ''is_hit'' (label row) row) (rows (h ! df))\<rparr>"
  have h': "h' = h[df := d']"
    by (simp add: ret(4) d'_def label_def k_def)
  have len: "df < length h'" and at: "h' ! df = d'"
    using assms(1) by (simp_all add: h')
  have pop: "''popularity'' \<in> set (columns d')"
    using ret(2) by (simp add: d'_def)
  have nostr: "\<not> (\<exists>row\<in>set (rows d'). \<exists>s. cell_of row ''popularity'' = StrV s)"
    using ret(3) by (auto simp: d'_def cell_of_update)
  have hit: "''is_hit'' \<in> set (columns d')"
    by (simp add: d'_def)
  have same_label: "label (AList.update ''is_hit'' v row) = label row" for v row
    by (simp add: label_def cell_of_update)
  have again: "\<lparr>columns = columns d',
                 rows = map (\<lambda>r. AList.update ''is_hit''
                          (IntV (if \<exists>p. cell_of r ''popularity'' = IntV p \<and> k < p then 1 else 0)) r)
                        (rows d')\<rparr> = d'"
    using hit by (simp add: d'_def comp_def label_def cell_of_update)
  have "define_hit_songs df thr (h', out') =
          (Inr df, (h'[df := d'],
             out' @ [Created_is_hit_column k, Distribution_of_hits,
                     Value_counts (map label (rows d'))]))"
    using pop nostr hit
    by (simp add: define_hit_songs_eq [OF len] Let_def at k_def [symmetric] again)
      (simp add: label_def)
  moreover have "h'[df := d'] = h'"
    by (simp add: h')
  ultimately show ?thesis
    by (simp add: ret(1))
qed



lemma run_define_hit_songs_example:
  "define_hit_songs 0 None
     ([\<lparr>columns = [''track_id'', ''popularity''],
        rows = [[(''track_id'', StrV ''a''), (''popularity'', IntV 87)],
                [(''track_id'', StrV ''b''), (''popularity'', IntV 88)]]\<rparr>], []) =
   (Inr 0,
    ([\<lparr>columns = [''track_id'', ''popularity'', ''is_hit''],
       rows = [[(''track_id'', StrV ''a''), (''popularity'', IntV 87), (''is_hit'', IntV 0)],
               [(''track_id'', StrV ''b''), (''popularity'', IntV 88), (''is_hit'', IntV 1)]]\<rparr>],
     [Created_is_hit_column 87, Distribution_of_hits, Value_counts [IntV 0, IntV 1]]))"
  by (simp add: define_hit_songs_def run_simps getitem_def setitem_def astype_int_def cell_of_def)

theorem define_hit_songs_strict_threshold_witness:
  "\<exists>h' out'.
     define_hit_songs 0 None
       ([\<lparr>columns = [''track_id'', ''popularity''],
          rows = [[(''track_id'', StrV ''a''), (''popularity'', IntV 87)],
                  [(''track_id'', StrV ''b''), (''popularity'', IntV 88)]]\<rparr>], []) =
       (Inr 0, (h', out')) \<and>
     length (rows (h' ! 0)) = 2 \<and>
     cell_of (rows (h' ! 0) ! 0) ''is_hit'' = IntV 0 \<and>
     cell_of (rows (h' ! 0) ! 1) ''is_hit'' = IntV 1"
proof -
  let ?T = "\<lparr>columns = [''track_id'', ''popularity''],
            rows = [[(''track_id'', StrV ''a''), (''popularity'', IntV 87)],
                    [(''track_id'', StrV ''b''), (''popularity'', IntV 88)]]\<rparr>"
  have len: "0 < length [?T]" by simp
  note main = define_hit_songs_strict_threshold [OF len, of None "[]"]
  have pre: "''popularity'' \<in> set (columns ([?T] ! 0)) \<and>
          (\<forall>row\<in>set (rows ([?T] ! 0)). \<forall>s. cell_of row ''popularity'' \<noteq> StrV s)"
    by (simp add: cell_of_def)
  with main obtain h' out' where
    run: "define_hit_songs 0 None ([?T], []) = (Inr 0, (h', out'))"
    by blast
  with main have
    rows: "length (rows (h' ! 0)) = length (rows ([?T] ! 0))" and
    labels: "\<forall>i<length (rows ([?T] ! 0)).
               cell_of (rows (h' ! 0) ! i) ''is_hit'' =
                 IntV (if \<exists>p. cell_of (rows ([?T] ! 0) ! i) ''popularity'' = IntV p \<and> 87 < p
                       then 1 else 0)"
    by simp_all
  from labels have "cell_of (rows (h' ! 0) ! 0) ''is_hit'' = IntV 0"
    by (simp add: cell_of_def)
  moreover from labels have "cell_of (rows (h' ! 0) ! 1) ''is_hit'' = IntV 1"
    by (simp add: cell_of_def)
  ultimately show ?thesis
    using run rows by simp
qed

theorem define_hit_songs_idempotent_witness:
  "\<exists>out''. define_hit_songs 0 None
     ([\<lparr>columns = [''track_id'', ''popularity'', ''is_hit''],
        rows = [[(''track_id'', StrV ''a''), (''popularity'', IntV 87), (''is_hit'', IntV 0)],
                [(''track_id'', StrV ''b''), (''popularity'', IntV 88), (''is_hit'', IntV 1)]]\<rparr>],
      [Created_is_hit_column 87, Distribution_of_hits, Value_counts [IntV 0, IntV 1]]) =
     (Inr 0,
      ([\<lparr>columns = [''track_id'', ''popularity'', ''is_hit''],
         rows = [[(''track_id'', StrV ''a''), (''popularity'', IntV 87), (''is_hit'', IntV 0)],
                 [(''track_id'', StrV ''b''), (''popularity'', IntV 88), (''is_hit'', IntV 1)]]\<rparr>],
       out''))"
  by (rule define_hit_songs_idempotent [OF _ run_define_hit_songs_example]) simp


section \<open>Cleaning\<close>

subsection \<open>The passes of the specification and the pandas calls\<close>

lemma dropna_completeness_pass: "dropna d = completeness_pass d"
proof -
  have "complete_row (columns d) = (\<lambda>r. \<not> list_ex (\<lambda>c. cell_of r c = Missing) (columns d))"
    by (auto simp: complete_row_def list_all_iff list_ex_iff fun_eq_iff)
  then show ?thesis
    by (simp add: dropna_def completeness_pass_def)
qed

lemma drop_columns_schema_hygiene_pass:
  assumes "''index'' \<in> set (columns d)"
  shows "drop_columns ''index'' d = Inr (schema_hygiene_pass d)"
proof -
  have del: "AList.delete ''index'' r = filter (\<lambda>kv. fst kv \<noteq> ''index'') r" for r :: row
    by (auto simp: AList.delete_eq intro: filter_cong)
  have cols: "filter (\<lambda>c'. c' \<noteq> ''index'') (columns d) = removeAll ''index'' (columns d)"
    by (auto simp: removeAll_filter_not_eq intro: filter_cong)
  show ?thesis
    using assms by (simp add: drop_columns_def schema_hygiene_pass_def del cols)
qed

lemma schema_hygiene_pass_absent:
  "''index'' \<notin> set (columns d) \<Longrightarrow> schema_hygiene_pass d = d"
  by (simp add: schema_hygiene_pass_def)

lemma unmarked_keep_first:
  "map fst (filter (\<lambda>(r, dup). \<not> dup) (zip xs (mark_duplicates seen (map key xs)))) =
     keep_first key (filter (\<lambda>x. key x \<notin> set seen) xs)"
proof (induction xs arbitrary: seen)
  case Nil
  show ?case by simp
next
  case (Cons x xs)
  have "filter (\<lambda>y. key y \<notin> set (key x # seen)) xs =
        filter (\<lambda>y. key y \<noteq> key x) (filter (\<lambda>y. key y \<notin> set seen) xs)"
    by (auto intro: filter_cong)
  moreover have "key x \<in> set seen \<Longrightarrow>
      filter (\<lambda>y. key y \<notin> set (key x # seen)) xs = filter (\<lambda>y. key y \<notin> set seen) xs"
    by (auto intro: filter_cong)
  ultimately show ?case
    using Cons.IH [of "key x # seen"] by (cases "key x \<in> set seen") simp_all
qed

lemma marked_count:
  "sum_series (mark_duplicates seen (map key xs)) +
     length (keep_first key (filter (\<lambda>x. key x \<notin> set seen) xs)) = length xs"
proof (induction xs arbitrary: seen)
  case Nil
  show ?case by (simp add: sum_series_def)
next
  case (Cons x xs)
  have "filter (\<lambda>y. key y \<notin> set (key x # seen)) xs =
        filter (\<lambda>y. key y \<noteq> key x) (filter (\<lambda>y. key y \<notin> set seen) xs)"
    by (auto intro: filter_cong)
  moreover have "key x \<in> set seen \<Longrightarrow>
      filter (\<lambda>y. key y \<notin> set (key x # seen)) xs = filter (\<lambda>y. key y \<notin> set seen) xs"
    by (auto intro: filter_cong)
  ultimately show ?case
    using Cons.IH [of "key x # seen"]
    by (cases "key x \<in> set seen") (simp_all add: sum_series_def)
qed

lemma unmarked_all:
  "sum_series (mark_duplicates seen (map key xs)) = 0 \<Longrightarrow>
     keep_first key (filter (\<lambda>x. key x \<notin> set seen) xs) = xs"
proof (induction xs arbitrary: seen)
  case Nil
  show ?case by simp
next
  case (Cons x xs)
  have split: "filter (\<lambda>y. key y \<notin> set (key x # seen)) xs =
        filter (\<lambda>y. key y \<noteq> key x) (filter (\<lambda>y. key y \<notin> set seen) xs)"
    by (auto intro: filter_cong)
  from Cons.prems have head: "key x \<notin> set seen"
    and rest: "sum_series (mark_duplicates (key x # seen) (map key xs)) = 0"
    by (auto simp: sum_series_def split: if_splits)
  have "keep_first key (filter (\<lambda>y. key y \<notin> set seen) (x # xs)) =
        x # keep_first key (filter (\<lambda>y. key y \<noteq> key x) (filter (\<lambda>y. key y \<notin> set seen) xs))"
    using head by simp
  also have "\<dots> = x # keep_first key (filter (\<lambda>y. key y \<notin> set (key x # seen)) xs)"
    by (simp only: split)
  also have "\<dots> = x # xs"
    by (simp only: Cons.IH [OF rest])
  finally show ?case .
qed

lemma set_keep_first: "set (keep_first key xs) \<subseteq> set xs"
  by (induction key xs rule: keep_first.induct) auto

lemma keys_keep_first: "key ` set (keep_first key xs) = key ` set xs"
  by (induction key xs rule: keep_first.induct) auto

lemma distinct_keep_first: "distinct (map key (keep_first key xs))"
proof (induction key xs rule: keep_first.induct)
  case (1 key)
  show ?case by simp
next
  case (2 key x xs)
  have "key x \<notin> key ` set (keep_first key (filter (\<lambda>y. key y \<noteq> key x) xs))"
    using set_keep_first [of key "filter (\<lambda>y. key y \<noteq> key x) xs"] by auto
  with 2 show ?case by simp
qed

lemma find_filter: "find P (filter Q xs) = find (\<lambda>x. Q x \<and> P x) xs"
  by (induction xs) simp_all

lemma find_map: "find P (map f xs) = map_option f (find (\<lambda>x. P (f x)) xs)"
  by (induction xs) simp_all

lemma keep_first_is_first:
  "s \<in> set (keep_first key xs) \<Longrightarrow> find (\<lambda>t. key t = key s) xs = Some s"
proof (induction key xs rule: keep_first.induct)
  case (1 key)
  then show ?case by simp
next
  case (2 key x xs)
  show ?case
  proof (cases "s = x")
    case True
    then show ?thesis by simp
  next
    case False
    with "2.prems" have mem: "s \<in> set (keep_first key (filter (\<lambda>y. key y \<noteq> key x) xs))"
      by simp
    with set_keep_first [of key "filter (\<lambda>y. key y \<noteq> key x) xs"] have ne: "key s \<noteq> key x"
      by auto
    have "(\<lambda>t. key t \<noteq> key x \<and> key t = key s) = (\<lambda>t. key t = key s)"
      using ne by auto
    with "2.IH" [OF mem] ne show ?thesis
      by (simp add: find_filter)
  qed
qed


subsection \<open>clean_data, step by step\<close>

lemma clean_data_eq:
  assumes "df < length h"
  shows "clean_data df (h, out) =
    (let d = h ! df;
         d1 = completeness_pass d;
         dropped = (''index'' \<in> set (columns d));
         d2 = schema_hygiene_pass d1;
         h2 = h @ d1 # (if dropped then [d2] else []);
         out2 = out @ [Original_shape (shape d), Shape_after_dropping_NAs (shape d1)] @
                  (if dropped then [Dropped_the_index_column] else [])
     in case duplicated ''track_id'' d2 of
          Inl e \<Rightarrow> (Inl e, (h2, out2))
        | Inr marks \<Rightarrow>
            if 0 < sum_series marks then
              (case drop_duplicates ''track_id'' d2 of
                 Inl e \<Rightarrow> (Inl e, (h2, out2 @ [Found_duplicate_tracks (sum_series marks)]))
               | Inr d3 \<Rightarrow>
                   (Inr (length h2),
                    (h2 @ [d3],
                     out2 @ [Found_duplicate_tracks (sum_series marks),
                             Final_shape_after_cleaning (shape d3)])))
            else (Inr (length h2 - 1), (h2, out2 @ [Final_shape_after_cleaning (shape d2)])))"
proof -
  define d1 where "d1 = completeness_pass (h ! df)"
  define d2 where "d2 = schema_hygiene_pass d1"
  have cols: "columns d1 = columns (h ! df)"
    by (simp add: d1_def completeness_pass_def)
  show ?thesis
  proof (cases "''index'' \<in> set (columns (h ! df))")
    case True
    then have drop: "drop_columns ''index'' d1 = Inr d2"
      by (simp add: d2_def cols drop_columns_schema_hygiene_pass)
    show ?thesis
    proof (cases "duplicated ''track_id'' d2")
      case (Inl e)
      with True drop show ?thesis
        by (simp add: clean_data_def run_simps dropna_completeness_pass d1_def [symmetric]
            cols Let_def nth_append d2_def [symmetric])
    next
      case (Inr marks)
      show ?thesis
      proof (cases "drop_duplicates ''track_id'' d2")
        case (Inl e)
        with True drop Inr show ?thesis
          by (simp add: clean_data_def run_simps dropna_completeness_pass d1_def [symmetric]
              cols Let_def nth_append d2_def [symmetric])
      next
        case d3: (Inr d3)
        with True drop Inr show ?thesis
          by (simp add: clean_data_def run_simps dropna_completeness_pass d1_def [symmetric]
              cols Let_def nth_append d2_def [symmetric])
      qed
    qed
  next
    case False
    then have same: "d2 = d1"
      by (simp add: d2_def cols schema_hygiene_pass_absent)
    show ?thesis
    proof (cases "duplicated ''track_id'' d1")
      case (Inl e)
      with False same show ?thesis
        by (simp add: clean_data_def run_simps dropna_completeness_pass d1_def [symmetric]
            cols Let_def nth_append d2_def [symmetric])
    next
      case (Inr marks)
      show ?thesis
      proof (cases "drop_duplicates ''track_id'' d1")
        case (Inl e)
        with False same Inr show ?thesis
          by (simp add: clean_data_def run_simps dropna_completeness_pass d1_def [symmetric]
              cols Let_def nth_append d2_def [symmetric])
      next
        case d3: (Inr d3)
        with False same Inr show ?thesis
          by (simp add: clean_data_def run_simps dropna_completeness_pass d1_def [symmetric]
              cols Let_def nth_append d2_def [symmetric])
      qed
    qed
  qed
qed


lemma duplicated_track_id:
  assumes "''track_id'' \<in> set (columns d)"
  shows "\<exists>marks. duplicated ''track_id'' d = Inr marks \<and>
           sum_series marks = discarded_duplicates d \<and>
           (0 < sum_series marks \<longrightarrow> drop_duplicates ''track_id'' d = Inr (deduplication_pass d)) \<and>
           (sum_series marks = 0 \<longrightarrow> deduplication_pass d = d)"
proof (cases "rows d = []")
  case True
  then have "deduplication_pass d = d"
    by (simp add: deduplication_pass_def)
  with True show ?thesis
    by (simp add: duplicated_def empty_frame_def sum_series_def discarded_duplicates_def)
next
  case False
  let ?key = "\<lambda>r. cell_of r ''track_id''"
  let ?marks = "mark_duplicates [] (map ?key (rows d))"
  from False assms have nonempty: "\<not> empty_frame d"
    by (auto simp: empty_frame_def)
  with assms have dup: "duplicated ''track_id'' d = Inr ?marks"
    by (simp add: duplicated_def)
  have count: "sum_series ?marks + length (keep_first ?key (rows d)) = length (rows d)"
    using marked_count [of "[]" ?key "rows d"] by simp
  have kept: "map fst (filter (\<lambda>(r, dup). \<not> dup) (zip (rows d) ?marks)) = keep_first ?key (rows d)"
    using unmarked_keep_first [of "rows d" "[]" ?key] by simp
  have none: "sum_series ?marks = 0 \<Longrightarrow> keep_first ?key (rows d) = rows d"
    using unmarked_all [of "[]" ?key "rows d"] by simp
  have "sum_series ?marks = discarded_duplicates d"
    using count by (simp add: discarded_duplicates_def deduplication_pass_def)
  moreover have "drop_duplicates ''track_id'' d = Inr (deduplication_pass d)"
    using nonempty dup kept by (simp add: drop_duplicates_def deduplication_pass_def)
  moreover have "sum_series ?marks = 0 \<Longrightarrow> deduplication_pass d = d"
    using none by (simp add: deduplication_pass_def)
  ultimately show ?thesis
    using dup by simp
qed

lemma columns_passes:
  "columns (completeness_pass d) = columns d"
  "columns (deduplication_pass d) = columns d"
  "columns (schema_hygiene_pass d) = removeAll ''index'' (columns d)"
  by (simp_all add: completeness_pass_def deduplication_pass_def schema_hygiene_pass_def)

lemma clean_data_with_track_id:
  assumes "df < length h" and "''track_id'' \<in> set (columns (h ! df))"
  shows "clean_data df (h, out) =
    (let d = h ! df;
         d1 = completeness_pass d;
         dropped = (''index'' \<in> set (columns d));
         d2 = schema_hygiene_pass d1;
         n = discarded_duplicates d2;
         h2 = h @ d1 # (if dropped then [d2] else []);
         out2 = out @ [Original_shape (shape d), Shape_after_dropping_NAs (shape d1)] @
                  (if dropped then [Dropped_the_index_column] else []) @
                  (if 0 < n then [Found_duplicate_tracks n] else []) @
                  [Final_shape_after_cleaning (shape (CleanTable_spec d))]
     in if 0 < n then (Inr (length h2), (h2 @ [CleanTable_spec d], out2))
        else (Inr (length h2 - 1), (h2, out2)))
    \<and> (discarded_duplicates (schema_hygiene_pass (completeness_pass (h ! df))) = 0 \<longrightarrow>
         CleanTable_spec (h ! df) = schema_hygiene_pass (completeness_pass (h ! df)))"
proof -
  define d2 where "d2 = schema_hygiene_pass (completeness_pass (h ! df))"
  have "''track_id'' \<in> set (columns d2)"
    using assms(2) by (simp add: d2_def columns_passes)
  from duplicated_track_id [OF this] obtain marks where
    dup: "duplicated ''track_id'' d2 = Inr marks" and
    n: "sum_series marks = discarded_duplicates d2" and
    some: "0 < sum_series marks \<Longrightarrow> drop_duplicates ''track_id'' d2 = Inr (deduplication_pass d2)" and
    none: "sum_series marks = 0 \<Longrightarrow> deduplication_pass d2 = d2"
    by auto
  show ?thesis
  proof (cases "0 < discarded_duplicates d2")
    case True
    with dup n some show ?thesis
      by (simp add: clean_data_eq [OF assms(1)] Let_def d2_def [symmetric] CleanTable_spec_def)
  next
    case False
    with dup n none show ?thesis
      by (simp add: clean_data_eq [OF assms(1)] Let_def d2_def [symmetric] CleanTable_spec_def)
  qed
qed

lemma strip_index_delete: "filter (\<lambda>kv. fst kv \<noteq> ''index'') r = AList.delete ''index'' r"
  by (auto simp: AList.delete_eq intro: filter_cong)

lemma rows_two_passes:
  "rows (schema_hygiene_pass (completeness_pass d)) =
     map (if ''index'' \<in> set (columns d) then AList.delete ''index'' else (\<lambda>r. r))
       (filter (complete_row (columns d)) (rows d))"
proof -
  have "(\<lambda>r. \<not> list_ex (\<lambda>c. cell_of r c = Missing) (columns d)) = complete_row (columns d)"
    by (auto simp: complete_row_def list_all_iff list_ex_iff fun_eq_iff)
  then show ?thesis
    by (simp add: schema_hygiene_pass_def completeness_pass_def strip_index_delete)
qed

lemma length_keep_first: "length (keep_first key xs) \<le> length xs"
proof (induction key xs rule: keep_first.induct)
  case (1 key)
  show ?case by simp
next
  case (2 key x xs)
  have "length (filter (\<lambda>y. key y \<noteq> key x) xs) \<le> length xs"
    by simp
  with 2 have "length (keep_first key (filter (\<lambda>y. key y \<noteq> key x) xs)) \<le> length xs"
    by (rule le_trans)
  then show ?case by simp
qed

lemma discarded_plus_kept:
  "discarded_duplicates d + length (rows (deduplication_pass d)) = length (rows d)"
  using length_keep_first [of "\<lambda>r. cell_of r ''track_id''" "rows d"]
  by (simp add: discarded_duplicates_def deduplication_pass_def)

text \<open>
  C3. On a table with a \<^verbatim>\<open>track_id\<close> column, \<^verbatim>\<open>clean_data\<close> returns the table
  obtained by the completeness pass, then the schema-hygiene pass, then the deduplication
  pass, in this order. The duplicate count it reports (only when positive) is the number
  of rows the deduplication pass discards from the table left by the first two passes, so
  that count and the rows of the result add up to the rows that survived the completeness
  pass: rows removed for a missing value are not counted as duplicates.
\<close>

theorem clean_data_pass_order:
  assumes "df < length h" and "''track_id'' \<in> set (columns (h ! df))"
  shows "\<exists>r h'. clean_data df (h, out) =
           (Inr r, (h',
              out @ [Original_shape (shape (h ! df)),
                     Shape_after_dropping_NAs (shape (completeness_pass (h ! df)))] @
                (if ''index'' \<in> set (columns (h ! df)) then [Dropped_the_index_column] else []) @
                (if 0 < discarded_duplicates (schema_hygiene_pass (completeness_pass (h ! df)))
                 then [Found_duplicate_tracks
                         (discarded_duplicates (schema_hygiene_pass (completeness_pass (h ! df))))]
                 else []) @
                [Final_shape_after_cleaning (shape (CleanTable_spec (h ! df)))])) \<and>
         r < length h' \<and>
         h' ! r = deduplication_pass (schema_hygiene_pass (completeness_pass (h ! df))) \<and>
         discarded_duplicates (schema_hygiene_pass (completeness_pass (h ! df))) +
           length (rows (h' ! r)) = length (rows (completeness_pass (h ! df)))"
proof -
  define d2 where "d2 = schema_hygiene_pass (completeness_pass (h ! df))"
  note run = clean_data_with_track_id [OF assms, of out]
  have len: "length (rows d2) = length (rows (completeness_pass (h ! df)))"
    by (simp add: d2_def schema_hygiene_pass_def)
  have total: "discarded_duplicates d2 + length (rows (deduplication_pass d2)) =
      length (rows (completeness_pass (h ! df)))"
    using discarded_plus_kept [of d2] len by simp
  show ?thesis
  proof (cases "0 < discarded_duplicates d2")
    case True
    with run total show ?thesis
      by (simp add: Let_def d2_def [symmetric] CleanTable_spec_def nth_append)
  next
    case False
    with run have same: "deduplication_pass d2 = d2"
      by (simp add: d2_def CleanTable_spec_def)
    show ?thesis
    proof (cases "''index'' \<in> set (columns (h ! df))")
      case True
      with False run total same show ?thesis
        by (simp add: Let_def d2_def [symmetric] CleanTable_spec_def nth_append)
    next
      case absent: False
      then have d2: "d2 = completeness_pass (h ! df)"
        by (simp add: d2_def schema_hygiene_pass_absent columns_passes)
      from False absent run total same show ?thesis
        by (simp add: Let_def d2_def [symmetric] CleanTable_spec_def nth_append)
          (simp add: d2)
    qed
  qed
qed

lemma cell_of_delete_index:
  "c \<noteq> ''index'' \<Longrightarrow> cell_of (AList.delete ''index'' r) c = cell_of r c"
  by (simp add: cell_of_def delete_conv')

lemma clean_data_returns:
  assumes "df < length h" and "''track_id'' \<in> set (columns (h ! df))"
  shows "\<exists>r h' out'. clean_data df (h, out) = (Inr r, (h', out')) \<and> r < length h' \<and>
           length h \<le> r \<and> take (length h) h' = h \<and> h' ! r = CleanTable_spec (h ! df)"
proof -
  note run = clean_data_with_track_id [OF assms, of out]
  show ?thesis
  proof (cases "0 < discarded_duplicates (schema_hygiene_pass (completeness_pass (h ! df)))")
    case True
    with run show ?thesis
      by (simp add: Let_def nth_append)
  next
    case False
    with run have same: "CleanTable_spec (h ! df) = schema_hygiene_pass (completeness_pass (h ! df))"
      by simp
    show ?thesis
    proof (cases "''index'' \<in> set (columns (h ! df))")
      case True
      with False run same show ?thesis
        by (simp add: Let_def nth_append)
    next
      case absent: False
      with same have "CleanTable_spec (h ! df) = completeness_pass (h ! df)"
        by (simp add: schema_hygiene_pass_absent columns_passes)
      with False absent run show ?thesis
        by (simp add: Let_def nth_append)
    qed
  qed
qed

lemma rows_CleanTable_spec:
  "rows (CleanTable_spec d) =
     keep_first (\<lambda>r. cell_of r ''track_id'')
       (map (if ''index'' \<in> set (columns d) then AList.delete ''index'' else (\<lambda>r. r))
          (filter (complete_row (columns d)) (rows d)))"
  by (simp add: CleanTable_spec_def deduplication_pass_def rows_two_passes)

lemma columns_CleanTable_spec: "columns (CleanTable_spec d) = removeAll ''index'' (columns d)"
  by (simp add: CleanTable_spec_def columns_passes)

text \<open>
  C2, as amended. On a table with a \<^verbatim>\<open>track_id\<close> column, \<^verbatim>\<open>clean_data\<close> returns a
  table in which no row has a missing value in any column, no column is named
  \<^verbatim>\<open>index\<close>, and no two rows share a \<^verbatim>\<open>track_id\<close>. Every surviving row is the first
  row of the input, in its original order, among the rows without a missing value that
  carry its \<^verbatim>\<open>track_id\<close> (with the \<^verbatim>\<open>index\<close> entry removed), and every
  \<^verbatim>\<open>track_id\<close> of a row without a missing value survives.
\<close>

theorem clean_data_postconditions:
  assumes "df < length h" and "''track_id'' \<in> set (columns (h ! df))"
  shows "\<exists>r h' out'. clean_data df (h, out) = (Inr r, (h', out')) \<and> r < length h' \<and>
     (\<forall>row\<in>set (rows (h' ! r)). \<forall>c\<in>set (columns (h' ! r)). cell_of row c \<noteq> Missing) \<and>
     ''index'' \<notin> set (columns (h' ! r)) \<and>
     distinct (map (\<lambda>row. cell_of row ''track_id'') (rows (h' ! r))) \<and>
     (\<forall>row\<in>set (rows (h' ! r)).
        \<exists>t. find (\<lambda>t. complete_row (columns (h ! df)) t \<and>
                       cell_of t ''track_id'' = cell_of row ''track_id'') (rows (h ! df)) = Some t \<and>
            row = (if ''index'' \<in> set (columns (h ! df)) then AList.delete ''index'' t else t)) \<and>
     (\<forall>t\<in>set (rows (h ! df)). complete_row (columns (h ! df)) t \<longrightarrow>
        (\<exists>row\<in>set (rows (h' ! r)). cell_of row ''track_id'' = cell_of t ''track_id''))"
proof -
  define d where "d = h ! df"
  define key where "key = (\<lambda>r :: row. cell_of r ''track_id'')"
  define strip where
    "strip = (if ''index'' \<in> set (columns d) then AList.delete ''index'' else (\<lambda>r :: row. r))"
  define xs where "xs = map strip (filter (complete_row (columns d)) (rows d))"
  have rows: "rows (CleanTable_spec d) = keep_first key xs"
    by (simp add: rows_CleanTable_spec key_def xs_def strip_def)
  have cols: "columns (CleanTable_spec d) = removeAll ''index'' (columns d)"
    by (rule columns_CleanTable_spec)
  have key_strip: "key (strip t) = key t" for t
    by (simp add: key_def strip_def cell_of_delete_index)
  have a: "\<forall>row\<in>set (rows (CleanTable_spec d)). \<forall>c\<in>set (columns (CleanTable_spec d)).
             cell_of row c \<noteq> Missing"
  proof (intro ballI)
    fix row c
    assume "row \<in> set (rows (CleanTable_spec d))" and c: "c \<in> set (columns (CleanTable_spec d))"
    then have "row \<in> set xs"
      using set_keep_first [of key xs] by (auto simp: rows)
    then obtain t where t: "t \<in> set (rows d)" "complete_row (columns d) t" "row = strip t"
      by (auto simp: xs_def)
    from c have c': "c \<in> set (columns d)" "c \<noteq> ''index''"
      by (auto simp: cols)
    from t(2) c'(1) have "cell_of t c \<noteq> Missing"
      by (simp add: complete_row_def list_all_iff)
    with c'(2) show "cell_of row c \<noteq> Missing"
      by (simp add: t(3) strip_def cell_of_delete_index)
  qed
  have b: "''index'' \<notin> set (columns (CleanTable_spec d))"
    by (simp add: cols)
  have c: "distinct (map (\<lambda>row. cell_of row ''track_id'') (rows (CleanTable_spec d)))"
    using distinct_keep_first [of key xs] by (simp add: rows key_def)
  have d: "\<forall>row\<in>set (rows (CleanTable_spec d)).
        \<exists>t. find (\<lambda>t. complete_row (columns d) t \<and>
                       cell_of t ''track_id'' = cell_of row ''track_id'') (rows d) = Some t \<and>
            row = (if ''index'' \<in> set (columns d) then AList.delete ''index'' t else t)"
  proof
    fix row
    assume "row \<in> set (rows (CleanTable_spec d))"
    then have "find (\<lambda>t. key t = key row) xs = Some row"
      by (simp add: rows keep_first_is_first)
    then obtain t where
      "find (\<lambda>t. complete_row (columns d) t \<and> key t = key row) (rows d) = Some t" "strip t = row"
      by (auto simp: xs_def find_map find_filter key_strip)
    then show "\<exists>t. find (\<lambda>t. complete_row (columns d) t \<and>
                       cell_of t ''track_id'' = cell_of row ''track_id'') (rows d) = Some t \<and>
            row = (if ''index'' \<in> set (columns d) then AList.delete ''index'' t else t)"
      by (auto simp: key_def strip_def)
  qed
  have e: "\<forall>t\<in>set (rows d). complete_row (columns d) t \<longrightarrow>
        (\<exists>row\<in>set (rows (CleanTable_spec d)). cell_of row ''track_id'' = cell_of t ''track_id'')"
  proof (intro ballI impI)
    fix t
    assume "t \<in> set (rows d)" "complete_row (columns d) t"
    then have "key (strip t) \<in> key ` set xs"
      by (auto simp: xs_def)
    then have "key t \<in> key ` set (keep_first key xs)"
      by (simp add: keys_keep_first key_strip)
    then show "\<exists>row\<in>set (rows (CleanTable_spec d)). cell_of row ''track_id'' = cell_of t ''track_id''"
      by (auto simp: rows key_def)
  qed
  from clean_data_returns [OF assms, of out] obtain r h' out' where
    run: "clean_data df (h, out) = (Inr r, (h', out'))" "r < length h'"
      "h' ! r = CleanTable_spec d"
    by (auto simp: d_def)
  show ?thesis
    using a b c d e
    by (intro exI [of _ r] exI [of _ h'] exI [of _ out']) (simp add: run d_def [symmetric])
qed

subsection \<open>Concrete runs\<close>

lemmas eval_defs = clean_data_def define_hit_songs_def run_simps dropna_def complete_row_def
  cell_of_def drop_columns_def duplicated_def empty_frame_def sum_series_def
  drop_duplicates_def shape_def getitem_def setitem_def astype_int_def Let_def

lemmas eval_spec_defs = CleanTable_spec_def completeness_pass_def schema_hygiene_pass_def
  deduplication_pass_def discarded_duplicates_def shape_def cell_of_def

lemma run_clean_data_scenario:
  "clean_data 0
     ([\<lparr>columns = [''track_id'', ''popularity'', ''index''],
        rows = [[(''track_id'', StrV ''a''), (''popularity'', IntV 90), (''index'', IntV 0)],
                [(''track_id'', StrV ''a''), (''popularity'', IntV 50), (''index'', IntV 1)],
                [(''track_id'', StrV ''b''), (''popularity'', IntV 95), (''index'', IntV 2)]]\<rparr>], []) =
   (Inr 3,
    ([\<lparr>columns = [''track_id'', ''popularity'', ''index''],
       rows = [[(''track_id'', StrV ''a''), (''popularity'', IntV 90), (''index'', IntV 0)],
               [(''track_id'', StrV ''a''), (''popularity'', IntV 50), (''index'', IntV 1)],
               [(''track_id'', StrV ''b''), (''popularity'', IntV 95), (''index'', IntV 2)]]\<rparr>,
      \<lparr>columns = [''track_id'', ''popularity'', ''index''],
       rows = [[(''track_id'', StrV ''a''), (''popularity'', IntV 90), (''index'', IntV 0)],
               [(''track_id'', StrV ''a''), (''popularity'', IntV 50), (''index'', IntV 1)],
               [(''track_id'', StrV ''b''), (''popularity'', IntV 95), (''index'', IntV 2)]]\<rparr>,
      \<lparr>columns = [''track_id'', ''popularity''],
       rows = [[(''track_id'', StrV ''a''), (''popularity'', IntV 90)],
               [(''track_id'', StrV ''a''), (''popularity'', IntV 50)],
               [(''track_id'', StrV ''b''), (''popularity'', IntV 95)]]\<rparr>,
      \<lparr>columns = [''track_id'', ''popularity''],
       rows = [[(''track_id'', StrV ''a''), (''popularity'', IntV 90)],
               [(''track_id'', StrV ''b''), (''popularity'', IntV 95)]]\<rparr>],
     [Original_shape (3, 3), Shape_after_dropping_NAs (3, 3), Dropped_the_index_column,
      Found_duplicate_tracks 1, Final_shape_after_cleaning (2, 2)]))"
  by (simp add: eval_defs)

lemma run_clean_data_incomplete_first:
  "clean_data 0
     ([\<lparr>columns = [''track_id'', ''popularity''],
        rows = [[(''track_id'', StrV ''a''), (''popularity'', Missing)],
                [(''track_id'', StrV ''a''), (''popularity'', IntV 50)],
                [(''track_id'', StrV ''b''), (''popularity'', IntV 95)]]\<rparr>], []) =
   (Inr 1,
    ([\<lparr>columns = [''track_id'', ''popularity''],
       rows = [[(''track_id'', StrV ''a''), (''popularity'', Missing)],
               [(''track_id'', StrV ''a''), (''popularity'', IntV 50)],
               [(''track_id'', StrV ''b''), (''popularity'', IntV 95)]]\<rparr>,
      \<lparr>columns = [''track_id'', ''popularity''],
       rows = [[(''track_id'', StrV ''a''), (''popularity'', IntV 50)],
               [(''track_id'', StrV ''b''), (''popularity'', IntV 95)]]\<rparr>],
     [Original_shape (3, 2), Shape_after_dropping_NAs (2, 2), Final_shape_after_cleaning (2, 2)]))"
  by (simp add: eval_defs)

theorem clean_data_pass_order_witness:
  "clean_data 0
     ([\<lparr>columns = [''track_id'', ''popularity''],
        rows = [[(''track_id'', StrV ''a''), (''popularity'', Missing)],
                [(''track_id'', StrV ''a''), (''popularity'', IntV 50)],
                [(''track_id'', StrV ''b''), (''popularity'', IntV 95)]]\<rparr>], []) =
   (Inr 1,
    ([\<lparr>columns = [''track_id'', ''popularity''],
       rows = [[(''track_id'', StrV ''a''), (''popularity'', Missing)],
               [(''track_id'', StrV ''a''), (''popularity'', IntV 50)],
               [(''track_id'', StrV ''b''), (''popularity'', IntV 95)]]\<rparr>,
      \<lparr>columns = [''track_id'', ''popularity''],
       rows = [[(''track_id'', StrV ''a''), (''popularity'', IntV 50)],
               [(''track_id'', StrV ''b''), (''popularity'', IntV 95)]]\<rparr>],
     [Original_shape (3, 2), Shape_after_dropping_NAs (2, 2), Final_shape_after_cleaning (2, 2)]))
   \<and> deduplication_pass (schema_hygiene_pass (completeness_pass
        \<lparr>columns = [''track_id'', ''popularity''],
         rows = [[(''track_id'', StrV ''a''), (''popularity'', Missing)],
                 [(''track_id'', StrV ''a''), (''popularity'', IntV 50)],
                 [(''track_id'', StrV ''b''), (''popularity'', IntV 95)]]\<rparr>)) =
      \<lparr>columns = [''track_id'', ''popularity''],
       rows = [[(''track_id'', StrV ''a''), (''popularity'', IntV 50)],
               [(''track_id'', StrV ''b''), (''popularity'', IntV 95)]]\<rparr>
   \<and> discarded_duplicates (schema_hygiene_pass (completeness_pass
        \<lparr>columns = [''track_id'', ''popularity''],
         rows = [[(''track_id'', StrV ''a''), (''popularity'', Missing)],
                 [(''track_id'', StrV ''a''), (''popularity'', IntV 50)],
                 [(''track_id'', StrV ''b''), (''popularity'', IntV 95)]]\<rparr>)) = 0"
  using clean_data_pass_order
    [of 0 "[\<lparr>columns = [''track_id'', ''popularity''],
        rows = [[(''track_id'', StrV ''a''), (''popularity'', Missing)],
                [(''track_id'', StrV ''a''), (''popularity'', IntV 50)],
                [(''track_id'', StrV ''b''), (''popularity'', IntV 95)]]\<rparr>]" "[]"]
  by (simp add: run_clean_data_incomplete_first) (simp add: eval_spec_defs)

theorem clean_data_postconditions_witness:
  "''index'' \<notin> set [''track_id'', ''popularity''] \<and>
   distinct (map (\<lambda>row. cell_of row ''track_id'')
     [[(''track_id'', StrV ''a''), (''popularity'', IntV 90)],
      [(''track_id'', StrV ''b''), (''popularity'', IntV 95)]]) \<and>
   (\<exists>r h' out'. clean_data 0
     ([\<lparr>columns = [''track_id'', ''popularity'', ''index''],
        rows = [[(''track_id'', StrV ''a''), (''popularity'', IntV 90), (''index'', IntV 0)],
                [(''track_id'', StrV ''a''), (''popularity'', IntV 50), (''index'', IntV 1)],
                [(''track_id'', StrV ''b''), (''popularity'', IntV 95), (''index'', IntV 2)]]\<rparr>], []) =
      (Inr r, (h', out')) \<and>
      rows (h' ! r) = [[(''track_id'', StrV ''a''), (''popularity'', IntV 90)],
                       [(''track_id'', StrV ''b''), (''popularity'', IntV 95)]])"
  using clean_data_postconditions
    [of 0 "[\<lparr>columns = [''track_id'', ''popularity'', ''index''],
        rows = [[(''track_id'', StrV ''a''), (''popularity'', IntV 90), (''index'', IntV 0)],
                [(''track_id'', StrV ''a''), (''popularity'', IntV 50), (''index'', IntV 1)],
                [(''track_id'', StrV ''b''), (''popularity'', IntV 95), (''index'', IntV 2)]]\<rparr>]" "[]"]
  by (simp add: run_clean_data_scenario)

text \<open>
  C2 as stated fails: the first row of the input with \<^verbatim>\<open>track_id\<close> \<open>a\<close> has a missing
  popularity and is dropped by the completeness pass, so the row that survives for \<open>a\<close>
  is the second one, not the first-occurring one of the input.
\<close>

theorem clean_data_first_in_original_counterexample:
  "clean_data 0
     ([\<lparr>columns = [''track_id'', ''popularity''],
        rows = [[(''track_id'', StrV ''a''), (''popularity'', Missing)],
                [(''track_id'', StrV ''a''), (''popularity'', IntV 50)],
                [(''track_id'', StrV ''b''), (''popularity'', IntV 95)]]\<rparr>], []) =
   (Inr 1,
    ([\<lparr>columns = [''track_id'', ''popularity''],
       rows = [[(''track_id'', StrV ''a''), (''popularity'', Missing)],
               [(''track_id'', StrV ''a''), (''popularity'', IntV 50)],
               [(''track_id'', StrV ''b''), (''popularity'', IntV 95)]]\<rparr>,
      \<lparr>columns = [''track_id'', ''popularity''],
       rows = [[(''track_id'', StrV ''a''), (''popularity'', IntV 50)],
               [(''track_id'', StrV ''b''), (''popularity'', IntV 95)]]\<rparr>],
     [Original_shape (3, 2), Shape_after_dropping_NAs (2, 2), Final_shape_after_cleaning (2, 2)]))
   \<and> find (\<lambda>t. cell_of t ''track_id'' = StrV ''a'')
        [[(''track_id'', StrV ''a''), (''popularity'', Missing)],
         [(''track_id'', StrV ''a''), (''popularity'', IntV 50)],
         [(''track_id'', StrV ''b''), (''popularity'', IntV 95)]] =
       Some [(''track_id'', StrV ''a''), (''popularity'', Missing)]
   \<and> [(''track_id'', StrV ''a''), (''popularity'', Missing)] \<notin>
       set [[(''track_id'', StrV ''a''), (''popularity'', IntV 50)],
            [(''track_id'', StrV ''b''), (''popularity'', IntV 95)]]"
  by (simp add: run_clean_data_incomplete_first) (simp add: cell_of_def)

subsection \<open>Tables without a track id, and the input after cleaning\<close>

lemma empty_after_two_passes:
  "empty_frame (schema_hygiene_pass (completeness_pass d)) \<longleftrightarrow>
     \<not> ((\<exists>row\<in>set (rows d). complete_row (columns d) row) \<and>
        (\<exists>c\<in>set (columns d). c \<noteq> ''index''))"
proof -
  have "rows (schema_hygiene_pass (completeness_pass d)) = [] \<longleftrightarrow>
        \<not> (\<exists>row\<in>set (rows d). complete_row (columns d) row)"
    by (simp add: rows_two_passes filter_empty_conv)
  moreover have "columns (schema_hygiene_pass (completeness_pass d)) = [] \<longleftrightarrow>
        \<not> (\<exists>c\<in>set (columns d). c \<noteq> ''index'')"
    by (auto simp: columns_passes removeAll_filter_not_eq filter_empty_conv)
  ultimately show ?thesis
    by (auto simp: empty_frame_def)
qed

lemma clean_data_without_track_id:
  assumes "df < length h" and "''track_id'' \<notin> set (columns (h ! df))"
  shows "clean_data df (h, out) =
    (let d = h ! df;
         d1 = completeness_pass d;
         dropped = (''index'' \<in> set (columns d));
         d2 = schema_hygiene_pass d1;
         h2 = h @ d1 # (if dropped then [d2] else []);
         out2 = out @ [Original_shape (shape d), Shape_after_dropping_NAs (shape d1)] @
                  (if dropped then [Dropped_the_index_column] else [])
     in if (\<exists>row\<in>set (rows d). complete_row (columns d) row) \<and>
           (\<exists>c\<in>set (columns d). c \<noteq> ''index'')
        then (Inl (KeyError ''track_id''), (h2, out2))
        else (Inr (length h2 - 1), (h2, out2 @ [Final_shape_after_cleaning (shape d2)])))"
proof -
  define d2 where "d2 = schema_hygiene_pass (completeness_pass (h ! df))"
  have absent: "''track_id'' \<notin> set (columns d2)"
    using assms(2) by (simp add: d2_def columns_passes)
  show ?thesis
  proof (cases "empty_frame d2")
    case True
    then have "duplicated ''track_id'' d2 = Inr []"
      by (simp add: duplicated_def)
    moreover from True have "\<not> ((\<exists>row\<in>set (rows (h ! df)). complete_row (columns (h ! df)) row) \<and>
        (\<exists>c\<in>set (columns (h ! df)). c \<noteq> ''index''))"
      by (simp add: d2_def empty_after_two_passes)
    ultimately show ?thesis
      by (simp add: clean_data_eq [OF assms(1)] Let_def d2_def [symmetric] sum_series_def)
  next
    case False
    with absent have "duplicated ''track_id'' d2 = Inl (KeyError ''track_id'')"
      by (simp add: duplicated_def)
    moreover from False have "(\<exists>row\<in>set (rows (h ! df)). complete_row (columns (h ! df)) row) \<and>
        (\<exists>c\<in>set (columns (h ! df)). c \<noteq> ''index'')"
      by (simp add: d2_def empty_after_two_passes)
    ultimately show ?thesis
      by (simp add: clean_data_eq [OF assms(1)] Let_def d2_def [symmetric])
  qed
qed

text \<open>
  C5, as amended. On a table without a \<^verbatim>\<open>track_id\<close> column, \<^verbatim>\<open>clean_data\<close> raises
  KeyError for \<^verbatim>\<open>track_id\<close> exactly when the table left by the first two passes is not
  empty, that is when the input has a row without a missing value and a column other than
  \<^verbatim>\<open>index\<close>. Otherwise pandas answers the empty table before it looks for the column,
  and \<^verbatim>\<open>clean_data\<close> returns that empty table.
\<close>

theorem clean_data_missing_track_id:
  assumes "df < length h" and "''track_id'' \<notin> set (columns (h ! df))"
  shows "if (\<exists>row\<in>set (rows (h ! df)). complete_row (columns (h ! df)) row) \<and>
            (\<exists>c\<in>set (columns (h ! df)). c \<noteq> ''index'')
         then fst (clean_data df (h, out)) = Inl (KeyError ''track_id'')
         else \<exists>r h' out'. clean_data df (h, out) = (Inr r, (h', out')) \<and> r < length h' \<and>
                h' ! r = schema_hygiene_pass (completeness_pass (h ! df)) \<and>
                empty_frame (h' ! r)"
proof (cases "(\<exists>row\<in>set (rows (h ! df)). complete_row (columns (h ! df)) row) \<and>
            (\<exists>c\<in>set (columns (h ! df)). c \<noteq> ''index'')")
  case True
  then show ?thesis
    by (simp add: clean_data_without_track_id [OF assms] Let_def)
next
  case False
  then have empty: "empty_frame (schema_hygiene_pass (completeness_pass (h ! df)))"
    by (simp add: empty_after_two_passes)
  show ?thesis
  proof (cases "''index'' \<in> set (columns (h ! df))")
    case True
    with False empty show ?thesis
      by (simp add: clean_data_without_track_id [OF assms] Let_def nth_append)
  next
    case absent: False
    then have "schema_hygiene_pass (completeness_pass (h ! df)) = completeness_pass (h ! df)"
      by (simp add: schema_hygiene_pass_absent columns_passes)
    with False empty absent show ?thesis
      by (simp add: clean_data_without_track_id [OF assms] Let_def nth_append)
  qed
qed

theorem clean_data_missing_track_id_witness:
  "clean_data 0 ([\<lparr>columns = [''name'', ''popularity''],
                  rows = [[(''name'', StrV ''song''), (''popularity'', IntV 3)]]\<rparr>], []) =
     (Inl (KeyError ''track_id''),
      ([\<lparr>columns = [''name'', ''popularity''],
         rows = [[(''name'', StrV ''song''), (''popularity'', IntV 3)]]\<rparr>,
        \<lparr>columns = [''name'', ''popularity''],
         rows = [[(''name'', StrV ''song''), (''popularity'', IntV 3)]]\<rparr>],
       [Original_shape (1, 2), Shape_after_dropping_NAs (1, 2)]))"
  using clean_data_missing_track_id
    [of 0 "[\<lparr>columns = [''name'', ''popularity''],
               rows = [[(''name'', StrV ''song''), (''popularity'', IntV 3)]]\<rparr>]" "[]"]
  by (simp add: eval_defs)

text \<open>
  C5 as stated fails: the only row of this table has a missing popularity, the table has
  no \<^verbatim>\<open>track_id\<close> column, and \<^verbatim>\<open>clean_data\<close> returns the empty table instead of
  raising.
\<close>

theorem clean_data_missing_track_id_counterexample:
  "''track_id'' \<notin> set [''name'', ''popularity''] \<and>
   clean_data 0 ([\<lparr>columns = [''name'', ''popularity''],
                  rows = [[(''name'', StrV ''song''), (''popularity'', Missing)]]\<rparr>], []) =
     (Inr 1,
      ([\<lparr>columns = [''name'', ''popularity''],
         rows = [[(''name'', StrV ''song''), (''popularity'', Missing)]]\<rparr>,
        \<lparr>columns = [''name'', ''popularity''], rows = []\<rparr>],
       [Original_shape (1, 2), Shape_after_dropping_NAs (0, 2),
        Final_shape_after_cleaning (0, 2)]))"
  by (simp add: eval_defs)

text \<open>
  C10. \<^verbatim>\<open>clean_data\<close> does not change its input: whatever it does, every object that
  existed before the call, the input among them, is as it was, and a table it returns is
  a new object (it returns one whenever the input has a \<^verbatim>\<open>track_id\<close> column).
  \<^verbatim>\<open>define_hit_songs\<close>, in contrast, returns the object it was given.
\<close>

theorem clean_data_leaves_input:
  assumes "df < length h" and "clean_data df (h, out) = (res, (h', out'))"
  shows "take (length h) h' = h \<and> h' ! df = h ! df \<and>
         (\<forall>r. res = Inr r \<longrightarrow> length h \<le> r \<and> r < length h') \<and>
         (''track_id'' \<in> set (columns (h ! df)) \<longrightarrow> (\<exists>r. res = Inr r)) \<and>
         (\<forall>thr r h2 out2. define_hit_songs df thr (h, out) = (Inr r, (h2, out2)) \<longrightarrow> r = df)"
proof -
  have heap: "take (length h) h' = h \<and> (\<forall>r. res = Inr r \<longrightarrow> length h \<le> r \<and> r < length h')"
    using assms(2)
    by (auto simp: clean_data_eq [OF assms(1)] Let_def split: sum.splits if_splits)
  then have "take (length h) h' ! df = h ! df"
    by simp
  with assms(1) have same: "h' ! df = h ! df"
    by simp
  have returns: "''track_id'' \<in> set (columns (h ! df)) \<Longrightarrow> \<exists>r. res = Inr r"
    using clean_data_returns [OF assms(1), of out] assms(2) by auto
  have in_place: "\<forall>thr r h2 out2. define_hit_songs df thr (h, out) = (Inr r, (h2, out2)) \<longrightarrow> r = df"
    using define_hit_songs_returned(1) [OF assms(1)] by blast
  from heap same returns in_place show ?thesis
    by blast
qed

theorem clean_data_leaves_input_witness:
  "take (length [\<lparr>columns = [''track_id'', ''popularity''],
        rows = [[(''track_id'', StrV ''a''), (''popularity'', Missing)],
                [(''track_id'', StrV ''a''), (''popularity'', IntV 50)],
                [(''track_id'', StrV ''b''), (''popularity'', IntV 95)]]\<rparr>])
     [\<lparr>columns = [''track_id'', ''popularity''],
       rows = [[(''track_id'', StrV ''a''), (''popularity'', Missing)],
               [(''track_id'', StrV ''a''), (''popularity'', IntV 50)],
               [(''track_id'', StrV ''b''), (''popularity'', IntV 95)]]\<rparr>,
      \<lparr>columns = [''track_id'', ''popularity''],
       rows = [[(''track_id'', StrV ''a''), (''popularity'', IntV 50)],
               [(''track_id'', StrV ''b''), (''popularity'', IntV 95)]]\<rparr>] =
   [\<lparr>columns = [''track_id'', ''popularity''],
        rows = [[(''track_id'', StrV ''a''), (''popularity'', Missing)],
                [(''track_id'', StrV ''a''), (''popularity'', IntV 50)],
                [(''track_id'', StrV ''b''), (''popularity'', IntV 95)]]\<rparr>]"
  using clean_data_leaves_input [OF _ run_clean_data_incomplete_first]
  by simp

section \<open>Failures\<close>

lemma connect_to_spotify_eq:
  "connect_to_spotify spotify client_id client_secret (h, out) =
     (case spotify client_id client_secret of
        Inr sp \<Rightarrow> (Inr (Some sp), (h, out @ [Successfully_connected]))
      | Inl e \<Rightarrow> (Inr None, (h, out @ [Error_connecting_to_Spotify e])))"
  by (simp add: connect_to_spotify_def py_try_def run_simps split: sum.splits)

lemma for_item_eq:
  "for_item items song_data =
     song_data @
       map (\<lambda>t. Song_info (track_name t) (track_id t) (track_popularity t)
                   (map artist_name (track_artists t)))
         (List.map_filter (\<lambda>t. t) items)"
proof (induction items arbitrary: song_data)
  case Nil
  show ?case by (simp add: List.map_filter_simps)
next
  case (Cons a items)
  then show ?case
    by (cases a) (simp_all add: List.map_filter_simps)
qed

lemma get_playlist_tracks_eq:
  "get_playlist_tracks sp pl_id (h, out) =
     (case sp pl_id of
        Inl e \<Rightarrow> (Inl e, (h, out))
      | Inr items \<Rightarrow>
          (Inr (map (\<lambda>t. Song_info (track_name t) (track_id t) (track_popularity t)
                            (map artist_name (track_artists t)))
                  (List.map_filter (\<lambda>t. t) items)),
           (h, out @ [Collected_data_for (length (List.map_filter (\<lambda>t. t) items))])))"
  by (simp add: get_playlist_tracks_def run_simps Let_def for_item_eq split: sum.splits)

lemma define_hit_songs_raises:
  assumes "df < length h"
  shows "fst (define_hit_songs df thr (h, out)) =
     (if ''popularity'' \<notin> set (columns (h ! df)) then Inl (KeyError ''popularity'')
      else if \<exists>row\<in>set (rows (h ! df)). \<exists>s. cell_of row ''popularity'' = StrV s
        then Inl TypeError
      else Inr df)"
  by (simp add: define_hit_songs_eq [OF assms] Let_def)

lemma clean_data_raises:
  assumes "df < length h"
  shows "if ''track_id'' \<notin> set (columns (h ! df)) \<and>
            (\<exists>row\<in>set (rows (h ! df)). complete_row (columns (h ! df)) row) \<and>
            (\<exists>c\<in>set (columns (h ! df)). c \<noteq> ''index'')
         then fst (clean_data df (h, out)) = Inl (KeyError ''track_id'')
         else \<exists>r. fst (clean_data df (h, out)) = Inr r"
proof (cases "''track_id'' \<in> set (columns (h ! df))")
  case True
  with clean_data_returns [OF assms True, of out] show ?thesis
    by auto
next
  case False
  with clean_data_without_track_id [OF assms False, of out] show ?thesis
    by (simp add: Let_def)
qed

text \<open>
  C6, as amended. The outcome of every operation, for every answer of its environment.
  \<^verbatim>\<open>connect_to_spotify\<close> never raises: an exception of the constructor becomes a
  diagnostic and \<^verbatim>\<open>None\<close>. \<^verbatim>\<open>load_spotify_dataset\<close> turns a
  \<^verbatim>\<open>FileNotFoundError\<close> into a diagnostic and \<^verbatim>\<open>None\<close>, and raises every other
  exception of opening or parsing. \<^verbatim>\<open>search_playlist\<close> answers a response without a
  valid playlist with a diagnostic and \<^verbatim>\<open>(None, None)\<close>, and
  \<^verbatim>\<open>get_playlist_tracks\<close> a response without a valid track with the empty list; both
  raise what their client call raises. A missing column is not caught:
  \<^verbatim>\<open>define_hit_songs\<close> raises KeyError on a table without \<^verbatim>\<open>popularity\<close> (and
  TypeError on a string popularity), and \<^verbatim>\<open>clean_data\<close> raises KeyError exactly on
  a table without \<^verbatim>\<open>track_id\<close> that is not empty after its first two passes.
\<close>

theorem failures_caught_or_propagated:
  "connect_to_spotify spotify client_id client_secret (h, out) =
     (case spotify client_id client_secret of
        Inr sp \<Rightarrow> (Inr (Some sp), (h, out @ [Successfully_connected]))
      | Inl e \<Rightarrow> (Inr None, (h, out @ [Error_connecting_to_Spotify e]))) \<and>
   load_spotify_dataset parse fs file_path (h, out) =
     (case open_file fs file_path of
        Inl e \<Rightarrow> if is_FileNotFoundError e
                 then (Inr None, (h, out @ [File_was_not_found file_path]))
                 else (Inl e, (h, out))
      | Inr text \<Rightarrow>
          (case parse text of
             Inr d \<Rightarrow> (Inr (Some (length h)),
                       (h @ [d], out @ [Dataset_loaded file_path (length (rows d))]))
           | Inl e \<Rightarrow> if is_FileNotFoundError e
                      then (Inr None, (h, out @ [File_was_not_found file_path]))
                      else (Inl e, (h, out)))) \<and>
   search_playlist search query limit (h, out) =
     (case search query (case limit of None \<Rightarrow> 5 | Some l \<Rightarrow> l) of
        Inl e \<Rightarrow> (Inl e, (h, out))
      | Inr results \<Rightarrow>
          (case List.map_filter (\<lambda>p. p) (case results of None \<Rightarrow> [] | Some items \<Rightarrow> items) of
             [] \<Rightarrow> (Inr (None, None), (h, out @ [Could_not_find_playlists query]))
           | p # _ \<Rightarrow> (Inr (Some (playlist_id p), Some (playlist_name p)),
                       (h, out @ [Found_playlist (playlist_name p) (playlist_id p)])))) \<and>
   get_playlist_tracks playlist_tracks pl_id (h, out) =
     (case playlist_tracks pl_id of
        Inl e \<Rightarrow> (Inl e, (h, out))
      | Inr items \<Rightarrow>
          (Inr (map (\<lambda>t. Song_info (track_name t) (track_id t) (track_popularity t)
                            (map artist_name (track_artists t)))
                  (List.map_filter (\<lambda>t. t) items)),
           (h, out @ [Collected_data_for (length (List.map_filter (\<lambda>t. t) items))]))) \<and>
   (df < length h \<longrightarrow>
      fst (define_hit_songs df thr (h, out)) =
        (if ''popularity'' \<notin> set (columns (h ! df)) then Inl (KeyError ''popularity'')
         else if \<exists>row\<in>set (rows (h ! df)). \<exists>s. cell_of row ''popularity'' = StrV s
           then Inl TypeError
         else Inr df) \<and>
      (if ''track_id'' \<notin> set (columns (h ! df)) \<and>
          (\<exists>row\<in>set (rows (h ! df)). complete_row (columns (h ! df)) row) \<and>
          (\<exists>c\<in>set (columns (h ! df)). c \<noteq> ''index'')
       then fst (clean_data df (h, out)) = Inl (KeyError ''track_id'')
       else \<exists>r. fst (clean_data df (h, out)) = Inr r))"
  using clean_data_raises [of df h out] define_hit_songs_raises [of df h thr out]
  by (simp only: connect_to_spotify_eq load_spotify_dataset_eq search_playlist_eq
      get_playlist_tracks_eq) simp

theorem failures_caught_or_propagated_witness:
  "connect_to_spotify (\<lambda>i s. Inl (OtherError ''bad credentials'') :: exn + unit)
      ''id'' ''secret'' ([], []) =
      (Inr None, ([], [Error_connecting_to_Spotify (OtherError ''bad credentials'')])) \<and>
   load_spotify_dataset (\<lambda>t. Inl (OtherError ''parse''))
      (\<lambda>p. if p = ''plain.csv'' then File ''a,b'' else
           if p = ''plain.csv/x'' then Not_a_directory else No_such_file)
      ''missing.csv'' ([], []) = (Inr None, ([], [File_was_not_found ''missing.csv''])) \<and>
   search_playlist (\<lambda>q l. Inr (Some [None])) ''q'' None ([], []) =
      (Inr (None, None), ([], [Could_not_find_playlists ''q''])) \<and>
   get_playlist_tracks (\<lambda>p. Inr [None]) ''x'' ([], []) = (Inr [], ([], [Collected_data_for 0])) \<and>
   load_spotify_dataset (\<lambda>t. Inl (OtherError ''parse''))
      (\<lambda>p. if p = ''plain.csv'' then File ''a,b'' else
           if p = ''plain.csv/x'' then Not_a_directory else No_such_file)
      ''plain.csv'' ([], []) = (Inl (OtherError ''parse''), ([], [])) \<and>
   search_playlist (\<lambda>q l. Inl (OtherError ''network'')) ''q'' None ([], []) =
      (Inl (OtherError ''network''), ([], [])) \<and>
   get_playlist_tracks (\<lambda>p. Inl (OtherError ''network'')) ''x'' ([], []) =
      (Inl (OtherError ''network''), ([], [])) \<and>
   fst (define_hit_songs 0 None
      ([\<lparr>columns = [''track_id''], rows = [[(''track_id'', StrV ''a'')]]\<rparr>], [])) =
      Inl (KeyError ''popularity'') \<and>
   fst (clean_data 0
      ([\<lparr>columns = [''popularity''], rows = [[(''popularity'', IntV 3)]]\<rparr>], [])) =
      Inl (KeyError ''track_id'')"
  using
    failures_caught_or_propagated
      [where spotify = "\<lambda>i s. Inl (OtherError ''bad credentials'') :: exn + unit"
         and client_id = "''id''" and client_secret = "''secret''" and h = "[]" and out = "[]"
         and parse = "\<lambda>t. Inl (OtherError ''parse'')"
         and fs = "\<lambda>p. if p = ''plain.csv'' then File ''a,b'' else
                       if p = ''plain.csv/x'' then Not_a_directory else No_such_file"
         and file_path = "''missing.csv''"
         and search = "\<lambda>q l. Inr (Some [None])" and query = "''q''" and limit = None
         and playlist_tracks = "\<lambda>p. Inr [None]" and pl_id = "''x''" and df = 0 and thr = None]
    failures_caught_or_propagated
      [where spotify = "\<lambda>i s. Inl (OtherError ''bad credentials'') :: exn + unit"
         and client_id = "''id''" and client_secret = "''secret''" and h = "[]" and out = "[]"
         and parse = "\<lambda>t. Inl (OtherError ''parse'')"
         and fs = "\<lambda>p. if p = ''plain.csv'' then File ''a,b'' else
                       if p = ''plain.csv/x'' then Not_a_directory else No_such_file"
         and file_path = "''plain.csv''"
         and search = "\<lambda>q l. Inl (OtherError ''network'')" and query = "''q''" and limit = None
         and playlist_tracks = "\<lambda>p. Inl (OtherError ''network'')" and pl_id = "''x''"
         and df = 0 and thr = None]
    failures_caught_or_propagated
      [where spotify = "\<lambda>i s. Inl (OtherError ''bad credentials'') :: exn + unit"
         and client_id = "''id''" and client_secret = "''secret''"
         and h = "[\<lparr>columns = [''track_id''], rows = [[(''track_id'', StrV ''a'')]]\<rparr>]"
         and out = "[]"
         and parse = "\<lambda>t. Inl (OtherError ''parse'')"
         and fs = "\<lambda>p. No_such_file" and file_path = "''missing.csv''"
         and search = "\<lambda>q l. Inl (OtherError ''network'')" and query = "''q''" and limit = None
         and playlist_tracks = "\<lambda>p. Inl (OtherError ''network'')" and pl_id = "''x''"
         and df = 0 and thr = None]
    failures_caught_or_propagated
      [where spotify = "\<lambda>i s. Inl (OtherError ''bad credentials'') :: exn + unit"
         and client_id = "''id''" and client_secret = "''secret''"
         and h = "[\<lparr>columns = [''popularity''], rows = [[(''popularity'', IntV 3)]]\<rparr>]"
         and out = "[]"
         and parse = "\<lambda>t. Inl (OtherError ''parse'')"
         and fs = "\<lambda>p. No_such_file" and file_path = "''missing.csv''"
         and search = "\<lambda>q l. Inl (OtherError ''network'')" and query = "''q''" and limit = None
         and playlist_tracks = "\<lambda>p. Inl (OtherError ''network'')" and pl_id = "''x''"
         and df = 0 and thr = None]
  by (simp add: List.map_filter_simps complete_row_def cell_of_def open_file_def)

text \<open>
  C6 as stated fails: \<^verbatim>\<open>define_hit_songs\<close> on a table without a \<^verbatim>\<open>popularity\<close>
  column raises KeyError to its caller; nothing is printed and no sentinel is returned.
\<close>

theorem exceptions_propagate_counterexample:
  "define_hit_songs 0 None
      ([\<lparr>columns = [''track_id''], rows = [[(''track_id'', StrV ''a'')]]\<rparr>], []) =
      (Inl (KeyError ''popularity''),
       ([\<lparr>columns = [''track_id''], rows = [[(''track_id'', StrV ''a'')]]\<rparr>], []))"
  by (simp add: eval_defs)

end
